theory Spec2Isabelle
  imports Complex_Main
begin

section \<open>Exceptions, handler outcomes and HTTP responses\<close>

text \<open>
  The route handlers either return a value or raise. \<open>HTTPException\<close> carries the
  status code, the detail string and the headers (the empty list for \<open>headers=None\<close>).
  \<open>RequestValidationError\<close> is what the framework raises for a body or query parameter
  that breaks a declared constraint (\<open>Field(gt=0)\<close>, \<open>Query(le=100)\<close>), and
  \<open>ResponseValidationError\<close> what it raises when the value a handler returned breaks a
  constraint of the response model. \<open>IntegrityError\<close> is what the commit raises when a
  row breaks a NOT NULL, UNIQUE or PRIMARY KEY constraint of the declared table,
  \<open>OverflowError\<close> what the database driver raises for an integer outside the signed
  64-bit range, \<open>OperationalError\<close> what it raises when the store finds no key for a
  new row, and \<open>LibraryError\<close> stands for any exception of the password library.
\<close>

type_synonym headers = "(string \<times> string) list"

datatype exn =
    HTTPException nat string headers
  | RequestValidationError
  | ResponseValidationError
  | IntegrityError
  | OverflowError
  | OperationalError
  | LibraryError string

datatype 'a outcome = Raise exn | Return 'a

text \<open>
  What the client sees: a JSON body with the route's declared status code, the error
  body of an \<open>HTTPException\<close>, the framework's 422 for a request that fails
  validation, or a 500 for any other exception.
\<close>

datatype 'b http_response =
    Json nat 'b
  | HttpError nat string headers
  | UnprocessableEntity
  | InternalServerError

fun status_code :: "'b http_response \<Rightarrow> nat" where
  "status_code (Json code _) = code"
| "status_code (HttpError code _ _) = code"
| "status_code UnprocessableEntity = 422"
| "status_code InternalServerError = 500"

fun error_response :: "exn \<Rightarrow> 'b http_response" where
  "error_response (HTTPException c detail hs) = HttpError c detail hs"
| "error_response RequestValidationError = UnprocessableEntity"
| "error_response ResponseValidationError = InternalServerError"
| "error_response IntegrityError = InternalServerError"
| "error_response OverflowError = InternalServerError"
| "error_response OperationalError = InternalServerError"
| "error_response (LibraryError msg) = InternalServerError"

text \<open>
  The value a handler returns is validated against the response model, which yields the
  body or fails (\<open>None\<close>: a \<open>ResponseValidationError\<close>, hence a 500).
\<close>

fun respond :: "nat \<Rightarrow> ('a \<Rightarrow> 'b option) \<Rightarrow> 'a outcome \<Rightarrow> 'b http_response" where
  "respond code response_model (Return v) =
     (case response_model v of
        Some body \<Rightarrow> Json code body
      | None \<Rightarrow> error_response ResponseValidationError)"
| "respond code response_model (Raise e) = error_response e"

text \<open>
  A route: the framework validates the request first (\<open>valid\<close>), runs the handler on
  the session, and serialises what the handler returned through the response model with
  the declared status code. A handler that raises leaves the store as it was: the
  session is closed without a commit. What a handler committed stays committed when the
  response model then refuses the returned value.
\<close>

definition route ::
  "bool \<Rightarrow> nat \<Rightarrow> ('a \<Rightarrow> 'b option) \<Rightarrow> ('s \<Rightarrow> 'a outcome \<times> 's) \<Rightarrow> 's \<Rightarrow>
   'b http_response \<times> 's" where
  "route valid code response_model handler s =
     (if \<not> valid then (UnprocessableEntity, s)
      else (case handler s of (r, s') \<Rightarrow> (respond code response_model r, s')))"

section \<open>The relational store\<close>

text \<open>
  The store is the configured SQLite default. Python integers are unbounded, the store's
  are signed 64-bit: the driver raises \<open>OverflowError\<close> for an integer parameter outside
  that range (\<open>in_int64\<close>).

  A table is the list of its rows in the order a \<open>select\<close> without ORDER BY returns
  them (ascending primary key). \<open>session_get\<close> is \<open>session.get(Model, id)\<close>.
  \<open>next_rowid\<close> is the key the store assigns to a row inserted without one: 1 for an
  empty table, else one more than the largest key; when the largest key is the largest
  64-bit integer, the store tries random keys between 1 and \<open>2^62\<close> (the list
  \<open>random_rowids\<close>, a parameter of every route that inserts) and takes the first that
  no row has, or fails. \<open>sql_offset_limit\<close> is \<open>.offset(offset).limit(limit)\<close>: a
  negative offset skips nothing and a negative limit does not bound the result.
\<close>

definition in_int64 :: "int \<Rightarrow> bool" where
  "in_int64 i = (- (2 ^ 63) \<le> i \<and> i < 2 ^ 63)"

definition session_get :: "('r \<Rightarrow> int) \<Rightarrow> 'r list \<Rightarrow> int \<Rightarrow> 'r option outcome" where
  "session_get key rows i =
     (if in_int64 i then Return (find (\<lambda>r. key r = i) rows) else Raise OverflowError)"

definition next_rowid :: "int list \<Rightarrow> int list \<Rightarrow> int option" where
  "next_rowid random_rowids ids =
     (case ids of
        [] \<Rightarrow> Some 1
      | i # rest \<Rightarrow>
          (let largest = fold max rest i in
           if largest < 2 ^ 63 - 1 then Some (largest + 1)
           else find (\<lambda>r. 0 < r \<and> r \<le> 2 ^ 62 \<and> r \<notin> set ids) random_rowids))"

definition sql_offset_limit :: "int \<Rightarrow> int \<Rightarrow> 'r list \<Rightarrow> 'r list outcome" where
  "sql_offset_limit offset limit rows =
     (if in_int64 offset \<and> in_int64 limit
      then Return (if limit < 0 then drop (nat offset) rows
                   else take (nat limit) (drop (nat offset) rows))
      else Raise OverflowError)"

text \<open>
  An optional field of an update body: \<open>Unset\<close> when the body does not mention it,
  \<open>Set v\<close> when it does (\<open>model_dump(exclude_unset=True)\<close> keeps exactly the set
  fields; \<open>v\<close> is \<open>None\<close> for an explicit JSON null). \<open>sqlmodel_update\<close> assigns
  the set fields to the row object; \<open>assigned\<close> is the attribute's value afterwards.
\<close>

datatype 'a field = Unset | Set 'a

fun assigned :: "'a option field \<Rightarrow> 'a option \<Rightarrow> 'a option" where
  "assigned Unset old = old"
| "assigned (Set v) old = v"

section \<open>The task application (2\_fastpapi\_db.py)\<close>

text \<open>
  \<open>Task\<close> is the table row. The same class is the request body of the create and
  update routes: \<open>TaskBody\<close>. A table model is not validated when it is built from a
  request body, so every field of the body may be missing (\<open>None\<close>); the NOT NULL
  columns are checked by the commit only.
\<close>

record Task =
  id :: int
  title :: string
  description :: string
  completed :: bool

record TaskBody =
  id :: "int option"
  title :: "string option"
  description :: "string option"
  completed :: "bool option"

text \<open>The values the task handlers return: dictionaries, rows, and exception objects.\<close>

datatype task_return =
    TaskCreated string Task
  | TaskRow Task
  | TaskRows "Task list"
  | Message string
  | ExceptionObject exn

text \<open>
  \<open>create_task\<close>: the commit inserts the row under the id of the body, or under the
  key the store assigns when the body has none. The driver refuses an id outside the
  64-bit range, the store a missing title, description or completed and an id that a
  row already has.
\<close>

definition create_task ::
  "int list \<Rightarrow> TaskBody \<Rightarrow> Task list \<Rightarrow> task_return outcome \<times> Task list" where
  "create_task random_rowids task s =
     (case (case TaskBody.id task of
              None \<Rightarrow> (case next_rowid random_rowids (map Task.id s) of
                          None \<Rightarrow> Raise OperationalError
                        | Some k \<Rightarrow> Return k)
            | Some i \<Rightarrow> if in_int64 i then Return i else Raise OverflowError) of
        Raise e \<Rightarrow> (Raise e, s)
      | Return new_id \<Rightarrow>
          (case (TaskBody.title task, TaskBody.description task, TaskBody.completed task) of
             (Some title', Some description', Some completed') \<Rightarrow>
               if new_id \<in> set (map Task.id s) then (Raise IntegrityError, s)
               else
                 (let row = \<lparr>Task.id = new_id, Task.title = title',
                             Task.description = description', Task.completed = completed'\<rparr>
                  in (Return (TaskCreated ''Task created successfully'' row),
                      insort_key Task.id row s))
           | _ \<Rightarrow> (Raise IntegrityError, s)))"

definition read_tasks :: "Task list \<Rightarrow> task_return outcome \<times> Task list" where
  "read_tasks s = (Return (TaskRows s), s)"

definition read_task :: "int \<Rightarrow> Task list \<Rightarrow> task_return outcome \<times> Task list" where
  "read_task task_id s =
     (case session_get Task.id s task_id of
        Raise e \<Rightarrow> (Raise e, s)
      | Return None \<Rightarrow>
          (Return (ExceptionObject (HTTPException 404 ''Task not found'' [])), s)
      | Return (Some task) \<Rightarrow> (Return (TaskRow task), s))"

definition delete_task :: "int \<Rightarrow> Task list \<Rightarrow> task_return outcome \<times> Task list" where
  "delete_task task_id s =
     (case session_get Task.id s task_id of
        Raise e \<Rightarrow> (Raise e, s)
      | Return None \<Rightarrow>
          (Return (ExceptionObject (HTTPException 404 ''Task not found'' [])), s)
      | Return (Some task) \<Rightarrow>
          (Return (Message ''Task deleted successfully''),
           filter (\<lambda>r. Task.id r \<noteq> Task.id task) s))"

text \<open>
  \<open>update_task\<close> assigns title, description and completed of the body to the row and
  never its id; the commit refuses a missing one.
\<close>

definition update_task :: "int \<Rightarrow> TaskBody \<Rightarrow> Task list \<Rightarrow> task_return outcome \<times> Task list" where
  "update_task task_id updated_task s =
     (case session_get Task.id s task_id of
        Raise e \<Rightarrow> (Raise e, s)
      | Return None \<Rightarrow>
          (Return (ExceptionObject (HTTPException 404 ''Task not found'' [])), s)
      | Return (Some task) \<Rightarrow>
          (case (TaskBody.title updated_task, TaskBody.description updated_task,
                 TaskBody.completed updated_task) of
             (Some title', Some description', Some completed') \<Rightarrow>
               (let task' = \<lparr>Task.id = Task.id task, Task.title = title',
                             Task.description = description', Task.completed = completed'\<rparr>
                in (Return (TaskRow task'),
                    map (\<lambda>r. if Task.id r = Task.id task then task' else r) s))
           | _ \<Rightarrow> (Raise IntegrityError, s)))"

text \<open>
  \<open>DELETE /tasks/{task_id}\<close> declares no response model and no status code: whatever
  the handler returns is serialised with status 200.
\<close>

definition DELETE_tasks :: "int \<Rightarrow> Task list \<Rightarrow> task_return http_response \<times> Task list" where
  "DELETE_tasks task_id = route True 200 Some (delete_task task_id)"

section \<open>The production application: models (app/models)\<close>

text \<open>
  \<open>price\<close> is a Python float; the finite floats are embedded in the reals, which is
  all the comparison \<open>price > 0\<close> needs.
\<close>

record Item =
  id :: int
  name :: string
  description :: "string option"
  price :: real
  owner_id :: "int option"

record ItemCreate =
  name :: string
  description :: "string option"
  price :: real

record ItemUpdate =
  name :: "string option field"
  description :: "string option field"
  price :: "real option field"

record ItemPublic =
  name :: string
  description :: "string option"
  price :: real
  id :: int
  owner_id :: "int option"

record User =
  id :: int
  username :: string
  email :: string
  is_active :: bool
  hashed_password :: string

record UserCreate =
  username :: string
  email :: string
  is_active :: bool
  password :: string

record UserUpdate =
  username :: "string option field"
  email :: "string option field"
  password :: "string option field"
  is_active :: "bool option field"

record UserPublic =
  username :: string
  email :: string
  is_active :: bool
  id :: int

text \<open>The constraint \<open>Field(gt=0)\<close> of \<open>ItemBase.price\<close>, inherited by \<open>ItemCreate\<close>
  and by \<open>ItemPublic\<close>. \<open>ItemUpdate\<close> and the user models declare no constraint.\<close>

definition ItemCreate_valid :: "ItemCreate \<Rightarrow> bool" where
  "ItemCreate_valid item = (0 < ItemCreate.price item)"

text \<open>
  Serialisation through \<open>response_model=ItemPublic\<close> and \<open>response_model=UserPublic\<close>:
  the fields of the public model are read off the row (\<open>to_ItemPublic\<close>,
  \<open>to_UserPublic\<close>) and validated against the public model. \<open>ItemPublic\<close> refuses a
  price that is not positive; \<open>UserPublic\<close> has nothing to refuse. A list is refused
  when one of its rows is.
\<close>

definition to_ItemPublic :: "Item \<Rightarrow> ItemPublic" where
  "to_ItemPublic i =
     \<lparr>ItemPublic.name = Item.name i, ItemPublic.description = Item.description i,
      ItemPublic.price = Item.price i, ItemPublic.id = Item.id i,
      ItemPublic.owner_id = Item.owner_id i\<rparr>"

definition to_UserPublic :: "User \<Rightarrow> UserPublic" where
  "to_UserPublic u =
     \<lparr>UserPublic.username = User.username u, UserPublic.email = User.email u,
      UserPublic.is_active = User.is_active u, UserPublic.id = User.id u\<rparr>"

definition response_ItemPublic :: "Item \<Rightarrow> ItemPublic option" where
  "response_ItemPublic i = (if 0 < Item.price i then Some (to_ItemPublic i) else None)"

definition response_UserPublic :: "User \<Rightarrow> UserPublic option" where
  "response_UserPublic u = Some (to_UserPublic u)"

definition response_list :: "('a \<Rightarrow> 'b option) \<Rightarrow> 'a list \<Rightarrow> 'b list option" where
  "response_list response_model rows = those (map response_model rows)"

text \<open>The database of the production application: the two tables.\<close>

record database =
  item_table :: "Item list"
  user_table :: "User list"

definition empty_database :: database where
  "empty_database = \<lparr>item_table = [], user_table = []\<rparr>"

section \<open>Item routes (app/routers/items.py)\<close>

definition create_item ::
  "int list \<Rightarrow> ItemCreate \<Rightarrow> database \<Rightarrow> Item outcome \<times> database" where
  "create_item random_rowids item s =
     (case next_rowid random_rowids (map Item.id (item_table s)) of
        None \<Rightarrow> (Raise OperationalError, s)
      | Some new_id \<Rightarrow>
          (let db_item = \<lparr>Item.id = new_id,
                          Item.name = ItemCreate.name item,
                          Item.description = ItemCreate.description item,
                          Item.price = ItemCreate.price item,
                          Item.owner_id = None\<rparr>
           in (Return db_item, s\<lparr>item_table := insort_key Item.id db_item (item_table s)\<rparr>)))"

definition read_items :: "int \<Rightarrow> int \<Rightarrow> database \<Rightarrow> Item list outcome \<times> database" where
  "read_items offset limit s = (sql_offset_limit offset limit (item_table s), s)"

definition read_item :: "int \<Rightarrow> database \<Rightarrow> Item outcome \<times> database" where
  "read_item item_id s =
     (case session_get Item.id (item_table s) item_id of
        Raise e \<Rightarrow> (Raise e, s)
      | Return None \<Rightarrow> (Raise (HTTPException 404 ''Item not found'' []), s)
      | Return (Some item) \<Rightarrow> (Return item, s))"

text \<open>
  \<open>update_item\<close>: the set fields of the body are assigned to the row object; the commit
  refuses a NULL in the NOT NULL columns \<open>name\<close> and \<open>price\<close>.
\<close>

definition update_item :: "int \<Rightarrow> ItemUpdate \<Rightarrow> database \<Rightarrow> Item outcome \<times> database" where
  "update_item item_id item s =
     (case session_get Item.id (item_table s) item_id of
        Raise e \<Rightarrow> (Raise e, s)
      | Return None \<Rightarrow> (Raise (HTTPException 404 ''Item not found'' []), s)
      | Return (Some db_item) \<Rightarrow>
          (case (assigned (ItemUpdate.name item) (Some (Item.name db_item)),
                 assigned (ItemUpdate.price item) (Some (Item.price db_item))) of
             (Some name', Some price') \<Rightarrow>
               (let db_item' = \<lparr>Item.id = Item.id db_item, Item.name = name',
                                Item.description =
                                  assigned (ItemUpdate.description item) (Item.description db_item),
                                Item.price = price', Item.owner_id = Item.owner_id db_item\<rparr>
                in (Return db_item',
                    s\<lparr>item_table :=
                        map (\<lambda>r. if Item.id r = Item.id db_item then db_item' else r)
                          (item_table s)\<rparr>))
           | _ \<Rightarrow> (Raise IntegrityError, s)))"

definition delete_item :: "int \<Rightarrow> database \<Rightarrow> bool outcome \<times> database" where
  "delete_item item_id s =
     (case session_get Item.id (item_table s) item_id of
        Raise e \<Rightarrow> (Raise e, s)
      | Return None \<Rightarrow> (Raise (HTTPException 404 ''Item not found'' []), s)
      | Return (Some item) \<Rightarrow>
          (Return True,
           s\<lparr>item_table := filter (\<lambda>r. Item.id r \<noteq> Item.id item) (item_table s)\<rparr>))"

text \<open>
  The routes as the decorators declare them. Query parameters left out take their
  defaults (\<open>offset = 0\<close>, \<open>limit = 100\<close>); \<open>Query(le=100)\<close> is the only constraint
  on \<open>limit\<close>.
\<close>

definition POST_items ::
  "int list \<Rightarrow> ItemCreate \<Rightarrow> database \<Rightarrow> ItemPublic http_response \<times> database" where
  "POST_items random_rowids item =
     route (ItemCreate_valid item) 201 response_ItemPublic (create_item random_rowids item)"

definition GET_items ::
  "int option \<Rightarrow> int option \<Rightarrow> database \<Rightarrow> ItemPublic list http_response \<times> database" where
  "GET_items offset limit =
     (let offset' = (case offset of None \<Rightarrow> 0 | Some n \<Rightarrow> n);
          limit' = (case limit of None \<Rightarrow> 100 | Some n \<Rightarrow> n)
      in route (limit' \<le> 100) 200 (response_list response_ItemPublic)
           (read_items offset' limit'))"

definition GET_item :: "int \<Rightarrow> database \<Rightarrow> ItemPublic http_response \<times> database" where
  "GET_item item_id = route True 200 response_ItemPublic (read_item item_id)"

definition PATCH_item :: "int \<Rightarrow> ItemUpdate \<Rightarrow> database \<Rightarrow> ItemPublic http_response \<times> database" where
  "PATCH_item item_id item = route True 200 response_ItemPublic (update_item item_id item)"

definition DELETE_item :: "int \<Rightarrow> database \<Rightarrow> bool http_response \<times> database" where
  "DELETE_item item_id = route True 200 Some (delete_item item_id)"

section \<open>User routes (app/routers/users.py)\<close>

text \<open>
  \<open>get_password_hash\<close>, \<open>verify_password\<close> and \<open>create_access_token\<close> live in
  \<open>app.services.auth\<close>, outside the files at hand, so the routes take them as
  parameters. \<open>get_password_hash\<close> receives whatever the body holds (\<open>None\<close> for an
  explicit JSON null in an update) and either returns the digest or raises.
\<close>

type_synonym password_hasher = "string option \<Rightarrow> string outcome"

definition create_user ::
  "int list \<Rightarrow> password_hasher \<Rightarrow> UserCreate \<Rightarrow> database \<Rightarrow> User outcome \<times> database" where
  "create_user random_rowids get_password_hash user s =
     (case find (\<lambda>u. User.username u = UserCreate.username user) (user_table s) of
        Some db_user \<Rightarrow> (Raise (HTTPException 400 ''Username already registered'' []), s)
      | None \<Rightarrow>
          (case find (\<lambda>u. User.email u = UserCreate.email user) (user_table s) of
             Some db_user \<Rightarrow> (Raise (HTTPException 400 ''Email already registered'' []), s)
           | None \<Rightarrow>
               (case get_password_hash (Some (UserCreate.password user)) of
                  Raise e \<Rightarrow> (Raise e, s)
                | Return hashed \<Rightarrow>
                    (case next_rowid random_rowids (map User.id (user_table s)) of
                       None \<Rightarrow> (Raise OperationalError, s)
                     | Some new_id \<Rightarrow>
                         (let db_user = \<lparr>User.id = new_id,
                                         User.username = UserCreate.username user,
                                         User.email = UserCreate.email user,
                                         User.is_active = True,
                                         User.hashed_password = hashed\<rparr>
                          in (Return db_user,
                              s\<lparr>user_table :=
                                  insort_key User.id db_user (user_table s)\<rparr>))))))"

definition read_users :: "int \<Rightarrow> int \<Rightarrow> database \<Rightarrow> User list outcome \<times> database" where
  "read_users offset limit s = (sql_offset_limit offset limit (user_table s), s)"

definition read_user :: "int \<Rightarrow> database \<Rightarrow> User outcome \<times> database" where
  "read_user user_id s =
     (case session_get User.id (user_table s) user_id of
        Raise e \<Rightarrow> (Raise e, s)
      | Return None \<Rightarrow> (Raise (HTTPException 404 ''User not found'' []), s)
      | Return (Some user) \<Rightarrow> (Return user, s))"

text \<open>
  \<open>update_user\<close> makes no uniqueness check of its own. The commit refuses a NULL in
  \<open>username\<close>, \<open>email\<close> or \<open>is_active\<close>, and a changed \<open>username\<close> or \<open>email\<close>
  that another row already holds (\<open>unique=True\<close>; the flush writes the changed columns
  only).
\<close>

definition update_user ::
  "password_hasher \<Rightarrow> int \<Rightarrow> UserUpdate \<Rightarrow> database \<Rightarrow> User outcome \<times> database" where
  "update_user get_password_hash user_id user s =
     (case session_get User.id (user_table s) user_id of
        Raise e \<Rightarrow> (Raise e, s)
      | Return None \<Rightarrow> (Raise (HTTPException 404 ''User not found'' []), s)
      | Return (Some db_user) \<Rightarrow>
          (case (case UserUpdate.password user of
                   Unset \<Rightarrow> Return (User.hashed_password db_user)
                 | Set pw \<Rightarrow> get_password_hash pw) of
             Raise e \<Rightarrow> (Raise e, s)
           | Return hashed_password' \<Rightarrow>
               (case (assigned (UserUpdate.username user) (Some (User.username db_user)),
                      assigned (UserUpdate.email user) (Some (User.email db_user)),
                      assigned (UserUpdate.is_active user) (Some (User.is_active db_user))) of
                  (Some username', Some email', Some is_active') \<Rightarrow>
                    if list_ex (\<lambda>r. User.id r \<noteq> User.id db_user \<and>
                                     (username' \<noteq> User.username db_user \<and> User.username r = username' \<or>
                                      email' \<noteq> User.email db_user \<and> User.email r = email'))
                         (user_table s)
                    then (Raise IntegrityError, s)
                    else
                      (let db_user' = \<lparr>User.id = User.id db_user, User.username = username',
                                       User.email = email', User.is_active = is_active',
                                       User.hashed_password = hashed_password'\<rparr>
                       in (Return db_user',
                           s\<lparr>user_table :=
                               map (\<lambda>r. if User.id r = User.id db_user then db_user' else r)
                                 (user_table s)\<rparr>))
                | _ \<Rightarrow> (Raise IntegrityError, s))))"

definition delete_user :: "int \<Rightarrow> database \<Rightarrow> bool outcome \<times> database" where
  "delete_user user_id s =
     (case session_get User.id (user_table s) user_id of
        Raise e \<Rightarrow> (Raise e, s)
      | Return None \<Rightarrow> (Raise (HTTPException 404 ''User not found'' []), s)
      | Return (Some user) \<Rightarrow>
          (Return True,
           s\<lparr>user_table := filter (\<lambda>r. User.id r \<noteq> User.id user) (user_table s)\<rparr>))"

definition POST_users ::
  "int list \<Rightarrow> password_hasher \<Rightarrow> UserCreate \<Rightarrow> database \<Rightarrow>
   UserPublic http_response \<times> database" where
  "POST_users random_rowids get_password_hash user =
     route True 201 response_UserPublic (create_user random_rowids get_password_hash user)"

definition GET_users ::
  "int option \<Rightarrow> int option \<Rightarrow> database \<Rightarrow> UserPublic list http_response \<times> database" where
  "GET_users offset limit =
     (let offset' = (case offset of None \<Rightarrow> 0 | Some n \<Rightarrow> n);
          limit' = (case limit of None \<Rightarrow> 100 | Some n \<Rightarrow> n)
      in route (limit' \<le> 100) 200 (response_list response_UserPublic)
           (read_users offset' limit'))"

definition GET_user :: "int \<Rightarrow> database \<Rightarrow> UserPublic http_response \<times> database" where
  "GET_user user_id = route True 200 response_UserPublic (read_user user_id)"

definition PATCH_user ::
  "password_hasher \<Rightarrow> int \<Rightarrow> UserUpdate \<Rightarrow> database \<Rightarrow> UserPublic http_response \<times> database" where
  "PATCH_user get_password_hash user_id user =
     route True 200 response_UserPublic (update_user get_password_hash user_id user)"

definition DELETE_user :: "int \<Rightarrow> database \<Rightarrow> bool http_response \<times> database" where
  "DELETE_user user_id = route True 200 Some (delete_user user_id)"

section \<open>Authentication route (app/routers/auth.py)\<close>

record Token =
  access_token :: string
  token_type :: string

definition login_for_access_token ::
  "(string \<Rightarrow> string \<Rightarrow> bool) \<Rightarrow> (string \<Rightarrow> int \<Rightarrow> string) \<Rightarrow> int \<Rightarrow>
   string \<Rightarrow> string \<Rightarrow> database \<Rightarrow> Token outcome \<times> database" where
  "login_for_access_token verify_password create_access_token access_token_expire_minutes
     form_username form_password s =
     (case find (\<lambda>u. User.username u = form_username) (user_table s) of
        None \<Rightarrow>
          (Raise (HTTPException 401 ''Incorrect username or password''
                    [(''WWW-Authenticate'', ''Bearer'')]), s)
      | Some user \<Rightarrow>
          if \<not> verify_password form_password (User.hashed_password user)
          then (Raise (HTTPException 401 ''Incorrect username or password''
                         [(''WWW-Authenticate'', ''Bearer'')]), s)
          else (Return \<lparr>access_token =
                           create_access_token (User.username user) access_token_expire_minutes,
                         token_type = ''bearer''\<rparr>, s))"

definition POST_token ::
  "(string \<Rightarrow> string \<Rightarrow> bool) \<Rightarrow> (string \<Rightarrow> int \<Rightarrow> string) \<Rightarrow> int \<Rightarrow>
   string \<Rightarrow> string \<Rightarrow> database \<Rightarrow> Token http_response \<times> database" where
  "POST_token verify_password create_access_token access_token_expire_minutes
     form_username form_password =
     route True 200 Some
       (login_for_access_token verify_password create_access_token access_token_expire_minutes
          form_username form_password)"

section \<open>The application (app/main.py): the item and user routers\<close>

datatype request =
    CreateItem ItemCreate
  | ReadItems "int option" "int option"
  | ReadItem int
  | UpdateItem int ItemUpdate
  | DeleteItem int
  | CreateUser UserCreate
  | ReadUsers "int option" "int option"
  | ReadUser int
  | UpdateUser int UserUpdate
  | DeleteUser int

text \<open>The database after the application has served a request, and after a sequence of
  requests served one after the other.\<close>

fun serve :: "int list \<Rightarrow> password_hasher \<Rightarrow> request \<Rightarrow> database \<Rightarrow> database" where
  "serve rnd h (CreateItem item) s = snd (POST_items rnd item s)"
| "serve rnd h (ReadItems offset limit) s = snd (GET_items offset limit s)"
| "serve rnd h (ReadItem item_id) s = snd (GET_item item_id s)"
| "serve rnd h (UpdateItem item_id item) s = snd (PATCH_item item_id item s)"
| "serve rnd h (DeleteItem item_id) s = snd (DELETE_item item_id s)"
| "serve rnd h (CreateUser user) s = snd (POST_users rnd h user s)"
| "serve rnd h (ReadUsers offset limit) s = snd (GET_users offset limit s)"
| "serve rnd h (ReadUser user_id) s = snd (GET_user user_id s)"
| "serve rnd h (UpdateUser user_id user) s = snd (PATCH_user h user_id user s)"
| "serve rnd h (DeleteUser user_id) s = snd (DELETE_user user_id s)"

fun serve_all ::
  "int list \<Rightarrow> password_hasher \<Rightarrow> request list \<Rightarrow> database \<Rightarrow> database" where
  "serve_all rnd h [] s = s"
| "serve_all rnd h (r # rs) s = serve_all rnd h rs (serve rnd h r s)"

section \<open>Sample stores\<close>

text \<open>Concrete rows and stores on which the routes are evaluated below.\<close>

definition sample_task :: "int \<Rightarrow> Task" where
  "sample_task i = \<lparr>Task.id = i, Task.title = ''task'', Task.description = ''sample'',
                     Task.completed = False\<rparr>"

definition sample_item :: Item where
  "sample_item = \<lparr>Item.id = 1, Item.name = ''Old Name'', Item.description = None,
                   Item.price = 5, Item.owner_id = None\<rparr>"

definition alice :: User where
  "alice = \<lparr>User.id = 1, User.username = ''alice'', User.email = ''alice@example.com'',
             User.is_active = True, User.hashed_password = ''digest-a''\<rparr>"

definition bob :: User where
  "bob = \<lparr>User.id = 2, User.username = ''bob'', User.email = ''bob@example.com'',
           User.is_active = True, User.hashed_password = ''digest-b''\<rparr>"

definition sample_database :: database where
  "sample_database = \<lparr>item_table = [sample_item], user_table = [alice, bob]\<rparr>"


fun tagging_hasher :: password_hasher where
  "tagging_hasher None = Raise (LibraryError ''hash'')"
| "tagging_hasher (Some pw) = Return (''digest:'' @ pw)"

section \<open>Lookups in a table\<close>

lemma session_get_key: "session_get key rows i = Return (Some r) \<Longrightarrow> key r = i"
  unfolding session_get_def by (induction rows) (auto split: if_splits)

lemma session_get_mem: "session_get key rows i = Return (Some r) \<Longrightarrow> r \<in> set rows"
  unfolding session_get_def by (induction rows) (auto split: if_splits)

lemma session_get_in_int64: "session_get key rows i = Return x \<Longrightarrow> in_int64 i"
  unfolding session_get_def by (auto split: if_splits)

lemma session_get_None:
  "session_get key rows i = Return None \<longleftrightarrow> in_int64 i \<and> i \<notin> key ` set rows"
  unfolding session_get_def by (induction rows) auto

lemma session_get_map_update:
  "session_get key rows i = Return (Some r) \<Longrightarrow> key r' = i \<Longrightarrow>
   session_get key (map (\<lambda>x. if key x = i then r' else x) rows) i = Return (Some r')"
  unfolding session_get_def by (induction rows) (auto split: if_splits)

section \<open>Absent ids\<close>

text \<open>
  The item and user routes raise the 404 for an id (within the range of the store's
  integers) that no row has, and leave the database as it was.
\<close>

lemma missing_item_404:
  "session_get Item.id (item_table s) i = Return None \<Longrightarrow>
     GET_item i s = (HttpError 404 ''Item not found'' [], s) \<and>
     PATCH_item i item s = (HttpError 404 ''Item not found'' [], s) \<and>
     DELETE_item i s = (HttpError 404 ''Item not found'' [], s)"
  by (simp add: GET_item_def PATCH_item_def DELETE_item_def route_def read_item_def
      update_item_def delete_item_def)

lemma missing_user_404:
  "session_get User.id (user_table s) i = Return None \<Longrightarrow>
     GET_user i s = (HttpError 404 ''User not found'' [], s) \<and>
     PATCH_user h i user s = (HttpError 404 ''User not found'' [], s) \<and>
     DELETE_user i s = (HttpError 404 ''User not found'' [], s)"
  by (simp add: GET_user_def PATCH_user_def DELETE_user_def route_def read_user_def
      update_user_def delete_user_def)

text \<open>
  An id outside the range of the store's integers never reaches the lookup: the driver
  raises, and the item and user routes answer 500.
\<close>

lemma id_outside_the_store_range:
  "\<not> in_int64 i \<Longrightarrow>
     GET_item i s = (InternalServerError, s) \<and>
     PATCH_item i item s = (InternalServerError, s) \<and>
     DELETE_item i s = (InternalServerError, s) \<and>
     GET_user i s = (InternalServerError, s) \<and>
     PATCH_user h i user s = (InternalServerError, s) \<and>
     DELETE_user i s = (InternalServerError, s) \<and>
     read_task i ts = (Raise OverflowError, ts)"
  by (simp add: GET_item_def PATCH_item_def DELETE_item_def GET_user_def PATCH_user_def
      DELETE_user_def route_def read_item_def update_item_def delete_item_def read_user_def
      update_user_def delete_user_def read_task_def session_get_def)

text \<open>
  C1. Get, Update and Delete on an id that no record has should fail with a 404
  "<Entity> not found" and never answer 2xx. The task handlers do not raise the
  exception: they return the \<open>HTTPException\<close> object as an ordinary value. On the empty
  task table, \<open>DELETE /tasks/1\<close> answers 200 with the exception object as its body, and
  \<open>read_task\<close> and \<open>update_task\<close> return normally as well.
\<close>

theorem C1_task_handlers_return_the_exception:
  "DELETE_tasks 1 [] =
     (Json 200 (ExceptionObject (HTTPException 404 ''Task not found'' [])), [])
   \<and> status_code (fst (DELETE_tasks 1 [])) = 200
   \<and> read_task 1 [] = (Return (ExceptionObject (HTTPException 404 ''Task not found'' [])), [])
   \<and> update_task 1 body [] =
       (Return (ExceptionObject (HTTPException 404 ''Task not found'' [])), [])"
  by (simp add: DELETE_tasks_def route_def delete_task_def read_task_def update_task_def
      session_get_def in_int64_def)

section \<open>Partial update\<close>



lemma update_item_failed:
  assumes "session_get Item.id (item_table s) i = Return (Some r)"
    and "assigned (ItemUpdate.name item) (Some (Item.name r)) = None \<or>
         assigned (ItemUpdate.price item) (Some (Item.price r)) = None"
  shows "PATCH_item i item s = (InternalServerError, s)"
  using assms
  by (auto simp: PATCH_item_def route_def update_item_def split: option.splits)

lemma update_item_applied:
  assumes "session_get Item.id (item_table s) i = Return (Some r)"
    and "assigned (ItemUpdate.name item) (Some (Item.name r)) = Some n"
    and "assigned (ItemUpdate.price item) (Some (Item.price r)) = Some p"
  shows "PATCH_item i item s =
     (respond 200 response_ItemPublic
        (Return \<lparr>Item.id = Item.id r, Item.name = n,
                 Item.description = assigned (ItemUpdate.description item) (Item.description r),
                 Item.price = p, Item.owner_id = Item.owner_id r\<rparr>),
      s\<lparr>item_table :=
          map (\<lambda>x. if Item.id x = Item.id r
                     then \<lparr>Item.id = Item.id r, Item.name = n,
                           Item.description =
                             assigned (ItemUpdate.description item) (Item.description r),
                           Item.price = p, Item.owner_id = Item.owner_id r\<rparr>
                     else x) (item_table s)\<rparr>)"
  using assms by (simp add: PATCH_item_def route_def update_item_def Let_def)

lemma update_item_row_after:
  assumes "session_get Item.id (item_table s) i = Return (Some r)"
    and "assigned (ItemUpdate.name item) (Some (Item.name r)) = Some n"
    and "assigned (ItemUpdate.price item) (Some (Item.price r)) = Some p"
  shows "session_get Item.id (item_table (snd (PATCH_item i item s))) i =
     Return (Some \<lparr>Item.id = Item.id r, Item.name = n,
                   Item.description = assigned (ItemUpdate.description item) (Item.description r),
                   Item.price = p, Item.owner_id = Item.owner_id r\<rparr>)"
proof -
  have k: "Item.id r = i" using assms(1) by (rule session_get_key)
  show ?thesis
    using session_get_map_update[OF assms(1), of
        "\<lparr>Item.id = Item.id r, Item.name = n,
          Item.description = assigned (ItemUpdate.description item) (Item.description r),
          Item.price = p, Item.owner_id = Item.owner_id r\<rparr>"] k
    by (simp add: update_item_applied[OF assms])
qed

lemma update_item_frame:
  assumes "session_get Item.id (item_table s) i = Return (Some r)"
  shows "\<exists>r'. session_get Item.id (item_table (snd (PATCH_item i item s))) i = Return (Some r') \<and>
           Item.id r' = Item.id r \<and> Item.owner_id r' = Item.owner_id r \<and>
           (ItemUpdate.name item = Unset \<longrightarrow> Item.name r' = Item.name r) \<and>
           (ItemUpdate.description item = Unset \<longrightarrow> Item.description r' = Item.description r) \<and>
           (ItemUpdate.price item = Unset \<longrightarrow> Item.price r' = Item.price r)"
proof (cases "assigned (ItemUpdate.name item) (Some (Item.name r)) = None \<or>
              assigned (ItemUpdate.price item) (Some (Item.price r)) = None")
  case True
  then have "PATCH_item i item s = (InternalServerError, s)"
    using assms by (intro update_item_failed)
  moreover from True have "ItemUpdate.name item \<noteq> Unset \<or> ItemUpdate.price item \<noteq> Unset"
    by auto
  ultimately show ?thesis using assms True
    by (cases "ItemUpdate.name item"; cases "ItemUpdate.price item";
        cases "ItemUpdate.description item") auto
next
  case False
  then obtain n p where np: "assigned (ItemUpdate.name item) (Some (Item.name r)) = Some n"
    "assigned (ItemUpdate.price item) (Some (Item.price r)) = Some p"
    by auto
  from update_item_row_after[OF assms np] np show ?thesis by auto
qed











section \<open>Uniqueness of username and email\<close>

lemma find_None_image: "find (\<lambda>u. f u = x) xs = None \<longleftrightarrow> x \<notin> f ` set xs"
  by (induction xs) auto

lemma count_of_distinct_key:
  "distinct (map f xs) \<Longrightarrow> x \<in> f ` set xs \<Longrightarrow> length (filter (\<lambda>u. f u = x) xs) = 1"
proof (induction xs)
  case Nil
  then show ?case by simp
next
  case (Cons a xs)
  show ?case
  proof (cases "f a = x")
    case True
    with Cons.prems have "x \<notin> f ` set xs" by auto
    then have "filter (\<lambda>u. f u = x) xs = []" by (auto simp: filter_empty_conv)
    with True show ?thesis by simp
  next
    case False
    with Cons show ?thesis by auto
  qed
qed

lemma create_user_username_taken:
  "UserCreate.username user \<in> User.username ` set (user_table s) \<Longrightarrow>
   POST_users rnd h user s = (HttpError 400 ''Username already registered'' [], s)"
proof -
  assume "UserCreate.username user \<in> User.username ` set (user_table s)"
  then have "find (\<lambda>u. User.username u = UserCreate.username user) (user_table s) \<noteq> None"
    by (simp add: find_None_image)
  then show ?thesis
    by (auto simp: POST_users_def route_def create_user_def)
qed

lemma create_user_email_taken:
  "UserCreate.username user \<notin> User.username ` set (user_table s) \<Longrightarrow>
   UserCreate.email user \<in> User.email ` set (user_table s) \<Longrightarrow>
   POST_users rnd h user s = (HttpError 400 ''Email already registered'' [], s)"
proof -
  assume "UserCreate.username user \<notin> User.username ` set (user_table s)"
  then have n: "find (\<lambda>u. User.username u = UserCreate.username user) (user_table s) = None"
    by (simp add: find_None_image)
  assume "UserCreate.email user \<in> User.email ` set (user_table s)"
  then have "find (\<lambda>u. User.email u = UserCreate.email user) (user_table s) \<noteq> None"
    by (simp add: find_None_image)
  with n show ?thesis
    by (auto simp: POST_users_def route_def create_user_def)
qed

text \<open>
  C3. Updating a user to the username or email of another stored user should fail with
  a 400 conflict. \<open>update_user\<close> has no such check (\<open>create_user\<close> has): on the sample
  database, renaming bob to alice, or giving bob alice's email, reaches the commit,
  whose UNIQUE constraint raises \<open>IntegrityError\<close>; the route answers 500, and the
  database stays as it was.
\<close>

theorem C3_update_user_duplicate_is_a_500:
  "PATCH_user h 2
     \<lparr>UserUpdate.username = Set (Some ''alice''), UserUpdate.email = Unset,
      UserUpdate.password = Unset, UserUpdate.is_active = Unset\<rparr> sample_database =
     (InternalServerError, sample_database)
   \<and> PATCH_user h 2
     \<lparr>UserUpdate.username = Unset, UserUpdate.email = Set (Some ''alice@example.com''),
      UserUpdate.password = Unset, UserUpdate.is_active = Unset\<rparr> sample_database =
     (InternalServerError, sample_database)
   \<and> update_user h 2
     \<lparr>UserUpdate.username = Set (Some ''alice''), UserUpdate.email = Unset,
      UserUpdate.password = Unset, UserUpdate.is_active = Unset\<rparr> sample_database =
     (Raise IntegrityError, sample_database)
   \<and> POST_users rnd h
     \<lparr>UserCreate.username = ''alice'', UserCreate.email = ''new@example.com'',
      UserCreate.is_active = True, UserCreate.password = ''pw''\<rparr> sample_database =
     (HttpError 400 ''Username already registered'' [], sample_database)"
  by (simp add: PATCH_user_def POST_users_def route_def update_user_def create_user_def
      session_get_def in_int64_def sample_database_def alice_def bob_def)

text \<open>
  C4. Creating a user whose username or email a stored user already has answers 400
  and leaves the database as it was: the username is checked first ("Username already
  registered"), then the email ("Email already registered"). In a table that satisfies
  its UNIQUE constraints, exactly one user has that username (or email) afterwards.
\<close>

theorem C4_create_user_duplicate_is_rejected:
  "(UserCreate.username user \<in> User.username ` set (user_table s) \<longrightarrow>
      POST_users rnd h user s = (HttpError 400 ''Username already registered'' [], s) \<and>
      (distinct (map User.username (user_table s)) \<longrightarrow>
         length (filter (\<lambda>u. User.username u = UserCreate.username user)
                   (user_table (snd (POST_users rnd h user s)))) = 1))
   \<and>
   (UserCreate.email user \<in> User.email ` set (user_table s) \<longrightarrow>
      (\<exists>detail. POST_users rnd h user s = (HttpError 400 detail [], s)) \<and>
      (UserCreate.username user \<notin> User.username ` set (user_table s) \<longrightarrow>
         POST_users rnd h user s = (HttpError 400 ''Email already registered'' [], s)) \<and>
      (distinct (map User.email (user_table s)) \<longrightarrow>
         length (filter (\<lambda>u. User.email u = UserCreate.email user)
                   (user_table (snd (POST_users rnd h user s)))) = 1))"
proof (intro conjI impI)
  assume t: "UserCreate.username user \<in> User.username ` set (user_table s)"
  then show r: "POST_users rnd h user s = (HttpError 400 ''Username already registered'' [], s)"
    by (rule create_user_username_taken)
  assume "distinct (map User.username (user_table s))"
  then show "length (filter (\<lambda>u. User.username u = UserCreate.username user)
                   (user_table (snd (POST_users rnd h user s)))) = 1"
    using t r by (simp add: count_of_distinct_key)
next
  assume t: "UserCreate.email user \<in> User.email ` set (user_table s)"
  show r: "\<exists>detail. POST_users rnd h user s = (HttpError 400 detail [], s)"
  proof (cases "UserCreate.username user \<in> User.username ` set (user_table s)")
    case True
    then show ?thesis using create_user_username_taken by blast
  next
    case False
    then show ?thesis using t create_user_email_taken by blast
  qed
  {
    assume "UserCreate.username user \<notin> User.username ` set (user_table s)"
    then show "POST_users rnd h user s = (HttpError 400 ''Email already registered'' [], s)"
      using t by (rule create_user_email_taken)
  }
  assume "distinct (map User.email (user_table s))"
  then show "length (filter (\<lambda>u. User.email u = UserCreate.email user)
                   (user_table (snd (POST_users rnd h user s)))) = 1"
    using t r by (auto simp: count_of_distinct_key)
qed

theorem C4_create_user_duplicate_is_rejected_witness:
  "''alice'' \<in> User.username ` set (user_table sample_database)
   \<and> ''alice@example.com'' \<in> User.email ` set (user_table sample_database)
   \<and> distinct (map User.username (user_table sample_database))
   \<and> distinct (map User.email (user_table sample_database))
   \<and> POST_users [] tagging_hasher
        \<lparr>UserCreate.username = ''alice'', UserCreate.email = ''alice@example.com'',
         UserCreate.is_active = True, UserCreate.password = ''pw''\<rparr> sample_database =
       (HttpError 400 ''Username already registered'' [], sample_database)
   \<and> length (filter (\<lambda>u. User.username u = ''alice'')
        (user_table (snd (POST_users [] tagging_hasher
          \<lparr>UserCreate.username = ''alice'', UserCreate.email = ''alice@example.com'',
           UserCreate.is_active = True, UserCreate.password = ''pw''\<rparr> sample_database)))) = 1
   \<and> length (filter (\<lambda>u. User.email u = ''alice@example.com'')
        (user_table (snd (POST_users [] tagging_hasher
          \<lparr>UserCreate.username = ''alice'', UserCreate.email = ''alice@example.com'',
           UserCreate.is_active = True, UserCreate.password = ''pw''\<rparr> sample_database)))) = 1"
proof -
  let ?user = "\<lparr>UserCreate.username = ''alice'', UserCreate.email = ''alice@example.com'',
         UserCreate.is_active = True, UserCreate.password = ''pw''\<rparr>"
  have n: "UserCreate.username ?user = ''alice''" "UserCreate.email ?user = ''alice@example.com''"
    by simp_all
  have h1: "UserCreate.username ?user \<in> User.username ` set (user_table sample_database)"
    by (simp add: sample_database_def alice_def)
  have h2: "UserCreate.email ?user \<in> User.email ` set (user_table sample_database)"
    by (simp add: sample_database_def alice_def)
  have h3: "distinct (map User.username (user_table sample_database))"
    by (simp add: sample_database_def alice_def bob_def)
  have h4: "distinct (map User.email (user_table sample_database))"
    by (simp add: sample_database_def alice_def bob_def)
  note c = C4_create_user_duplicate_is_rejected [of ?user sample_database "[]" tagging_hasher]
  from c h1 have r: "POST_users [] tagging_hasher ?user sample_database =
       (HttpError 400 ''Username already registered'' [], sample_database)"
    by blast
  from c h1 h3 have cu: "length (filter (\<lambda>u. User.username u = UserCreate.username ?user)
        (user_table (snd (POST_users [] tagging_hasher ?user sample_database)))) = 1"
    by blast
  from c h2 h4 have ce: "length (filter (\<lambda>u. User.email u = UserCreate.email ?user)
        (user_table (snd (POST_users [] tagging_hasher ?user sample_database)))) = 1"
    by blast
  from h1 h2 h3 h4 r cu ce show ?thesis unfolding n by blast
qed

text \<open>
  C8. Every write of an item whose price is not positive should be rejected, so that
  every stored item has a positive price. The create body inherits \<open>Field(gt=0)\<close> and
  is rejected with a 422; \<open>ItemUpdate.price\<close> declares no constraint, so a PATCH with
  price \<open>-1\<close> on an item created through the API is committed: the stored price is
  \<open>-1\<close>. The response model \<open>ItemPublic\<close> does inherit the constraint, so the route
  answers 500 after the commit, and so do the get and list routes from then on.
\<close>

theorem C8_update_item_stores_a_negative_price:
  "POST_items rnd \<lparr>ItemCreate.name = ''Old Name'', ItemCreate.description = None,
               ItemCreate.price = 5\<rparr> empty_database =
     (Json 201 (to_ItemPublic sample_item), \<lparr>item_table = [sample_item], user_table = []\<rparr>)
   \<and> PATCH_item 1
       \<lparr>ItemUpdate.name = Unset, ItemUpdate.description = Unset,
        ItemUpdate.price = Set (Some (- 1))\<rparr>
       \<lparr>item_table = [sample_item], user_table = []\<rparr> =
     (InternalServerError,
      \<lparr>item_table = [\<lparr>Item.id = 1, Item.name = ''Old Name'', Item.description = None,
                       Item.price = - 1, Item.owner_id = None\<rparr>],
       user_table = []\<rparr>)
   \<and> GET_item 1
       \<lparr>item_table = [\<lparr>Item.id = 1, Item.name = ''Old Name'', Item.description = None,
                        Item.price = - 1, Item.owner_id = None\<rparr>],
        user_table = []\<rparr> =
     (InternalServerError,
      \<lparr>item_table = [\<lparr>Item.id = 1, Item.name = ''Old Name'', Item.description = None,
                       Item.price = - 1, Item.owner_id = None\<rparr>],
       user_table = []\<rparr>)
   \<and> GET_items None None
       \<lparr>item_table = [\<lparr>Item.id = 1, Item.name = ''Old Name'', Item.description = None,
                        Item.price = - 1, Item.owner_id = None\<rparr>],
        user_table = []\<rparr> =
     (InternalServerError,
      \<lparr>item_table = [\<lparr>Item.id = 1, Item.name = ''Old Name'', Item.description = None,
                       Item.price = - 1, Item.owner_id = None\<rparr>],
       user_table = []\<rparr>)
   \<and> POST_items rnd \<lparr>ItemCreate.name = ''Old Name'', ItemCreate.description = None,
                 ItemCreate.price = - 1\<rparr> empty_database =
     (UnprocessableEntity, empty_database)"
  by (simp add: POST_items_def PATCH_item_def GET_item_def GET_items_def route_def
      ItemCreate_valid_def create_item_def update_item_def read_item_def read_items_def
      sql_offset_limit_def session_get_def in_int64_def next_rowid_def empty_database_def
      sample_item_def to_ItemPublic_def response_ItemPublic_def response_list_def Let_def)

section \<open>Listing and creating\<close>

lemma le_fold_max: "x \<in> set (i # rest) \<Longrightarrow> x \<le> fold max rest (i::int)"
proof (induction rest arbitrary: i x)
  case Nil
  then show ?case by simp
next
  case (Cons a rest)
  have m: "max a i \<le> fold max rest (max a i)" by (rule Cons.IH) simp
  from Cons.prems consider "x = i" | "x = a" | "x \<in> set rest" by auto
  then show ?case
  proof cases
    case 1
    then show ?thesis using m by simp
  next
    case 2
    then show ?thesis using m by simp
  next
    case 3
    then have "x \<le> fold max rest (max a i)" by (intro Cons.IH) simp
    then show ?thesis by simp
  qed
qed

lemma fold_max_mem: "fold max rest (i::int) \<in> set (i # rest)"
proof (induction rest arbitrary: i)
  case Nil
  then show ?case by simp
next
  case (Cons a rest)
  have m: "max a i = a \<or> max a i = i" by (simp add: max_def)
  have "fold max rest (max a i) \<in> set (max a i # rest)" by (rule Cons.IH)
  then have "fold max rest (max a i) = max a i \<or> fold max rest (max a i) \<in> set rest"
    by simp
  with m show ?case by auto
qed

lemma next_rowid_fresh: "next_rowid rnd ids = Some k \<Longrightarrow> k \<notin> set ids"
proof (cases ids)
  case Nil
  then show ?thesis by simp
next
  case (Cons i rest)
  assume a: "next_rowid rnd ids = Some k"
  show ?thesis
  proof (cases "fold max rest i < 2 ^ 63 - 1")
    case True
    with a Cons have "k = fold max rest i + 1" by (simp add: next_rowid_def)
    moreover have "x \<le> fold max rest i" if "x \<in> set ids" for x
      using le_fold_max[of x i rest] that Cons by simp
    ultimately show ?thesis by force
  next
    case False
    with a Cons have
      "find (\<lambda>r. 0 < r \<and> r \<le> 2 ^ 62 \<and> r \<notin> set ids) rnd = Some k"
      by (simp add: next_rowid_def)
    then show ?thesis by (auto simp: find_Some_iff)
  qed
qed

lemma next_rowid_below_the_bound:
  assumes "\<forall>x\<in>set ids. x < 2 ^ 63 - 1"
  shows "\<exists>k. next_rowid rnd ids = Some k \<and> (\<forall>x\<in>set ids. x < k)"
proof (cases ids)
  case Nil
  then show ?thesis by (simp add: next_rowid_def)
next
  case (Cons i rest)
  have "fold max rest i \<in> set ids" using fold_max_mem[of rest i] Cons by simp
  with assms have "fold max rest i < 2 ^ 63 - 1" by blast
  then have "next_rowid rnd ids = Some (fold max rest i + 1)"
    using Cons by (simp add: next_rowid_def)
  moreover have "x < fold max rest i + 1" if "x \<in> set ids" for x
    using le_fold_max[of x i rest] that Cons by simp
  ultimately show ?thesis by blast
qed

lemma insort_key_largest:
  "\<forall>x\<in>set xs. f x < f y \<Longrightarrow> insort_key f y xs = xs @ [y]"
  for f :: "'a \<Rightarrow> int"
  by (induction xs) auto

lemma those_map_Some:
  "\<forall>x\<in>set xs. f x = Some (g x) \<Longrightarrow> those (map f xs) = Some (map g xs)"
  by (induction xs) auto

lemma create_item_valid:
  "ItemCreate_valid item \<Longrightarrow> next_rowid rnd (map Item.id (item_table s)) = Some k \<Longrightarrow>
   POST_items rnd item s =
     (Json 201 (to_ItemPublic
        \<lparr>Item.id = k, Item.name = ItemCreate.name item,
         Item.description = ItemCreate.description item, Item.price = ItemCreate.price item,
         Item.owner_id = None\<rparr>),
      s\<lparr>item_table := insort_key Item.id
        \<lparr>Item.id = k, Item.name = ItemCreate.name item,
         Item.description = ItemCreate.description item, Item.price = ItemCreate.price item,
         Item.owner_id = None\<rparr> (item_table s)\<rparr>)"
  by (simp add: POST_items_def route_def create_item_def response_ItemPublic_def
      ItemCreate_valid_def Let_def)

lemma create_user_fresh:
  assumes "UserCreate.username user \<notin> User.username ` set (user_table s)"
    and "UserCreate.email user \<notin> User.email ` set (user_table s)"
    and "h (Some (UserCreate.password user)) = Return d"
    and "next_rowid rnd (map User.id (user_table s)) = Some k"
  shows "POST_users rnd h user s =
     (Json 201 (to_UserPublic
        \<lparr>User.id = k,
         User.username = UserCreate.username user, User.email = UserCreate.email user,
         User.is_active = True, User.hashed_password = d\<rparr>),
      s\<lparr>user_table := insort_key User.id
        \<lparr>User.id = k,
         User.username = UserCreate.username user, User.email = UserCreate.email user,
         User.is_active = True, User.hashed_password = d\<rparr> (user_table s)\<rparr>)"
proof -
  have "find (\<lambda>u. User.username u = UserCreate.username user) (user_table s) = None"
    using assms(1) by (simp add: find_None_image)
  moreover have "find (\<lambda>u. User.email u = UserCreate.email user) (user_table s) = None"
    using assms(2) by (simp add: find_None_image)
  ultimately show ?thesis using assms(3,4)
    by (simp add: POST_users_def route_def create_user_def response_UserPublic_def Let_def)
qed

lemma create_user_json:
  assumes "POST_users rnd h user s = (Json c b, s')"
  shows "\<exists>row. h (Some (UserCreate.password user)) = Return (User.hashed_password row) \<and>
           next_rowid rnd (map User.id (user_table s)) = Some (User.id row) \<and>
           user_table s' = insort_key User.id row (user_table s) \<and>
           b = to_UserPublic row \<and> c = 201"
proof (cases "create_user rnd h user s")
  case (Pair out t)
  show ?thesis
  proof (cases out)
    case (Raise e)
    with Pair assms show ?thesis
      by (cases e) (auto simp: POST_users_def route_def)
  next
    case (Return row)
    with Pair have "h (Some (UserCreate.password user)) = Return (User.hashed_password row)"
      and "next_rowid rnd (map User.id (user_table s)) = Some (User.id row)"
      and "t = s\<lparr>user_table := insort_key User.id row (user_table s)\<rparr>"
      by (auto simp: create_user_def Let_def split: option.splits outcome.splits)
    with Pair Return assms show ?thesis
      by (auto simp: POST_users_def route_def response_UserPublic_def)
  qed
qed

text \<open>
  A task body with an id outside the range of the store's integers is refused by the
  driver, and nothing is stored.
\<close>

lemma create_task_id_outside_the_store_range:
  "TaskBody.id task = Some i \<Longrightarrow> \<not> in_int64 i \<Longrightarrow>
   create_task rnd task ts = (Raise OverflowError, ts)"
  by (simp add: create_task_def)

text \<open>
  C5, as the claim states it, fails for tasks: \<open>read_tasks\<close> takes no offset and no
  limit, and on a table of 101 tasks it returns all 101.
\<close>

theorem C5_read_tasks_returns_101_rows:
  "read_tasks (map sample_task [1..101]) =
     (Return (TaskRows (map sample_task [1..101])), map sample_task [1..101])
   \<and> length (map sample_task [1..101]) = 101"
  by (simp add: read_tasks_def)

text \<open>
  C5, amended. For items and users, the list route with an offset from 0 to below
  \<open>2^63\<close> and a limit in [0, 100] (100 when the query gives none, offset 0 when it
  gives none) selects the rows of the table, in table order, after skipping \<open>offset\<close>
  rows and keeping at most \<open>limit\<close>, never more than 100. The user route answers 200
  with their public forms; the item route does when every selected item has a positive
  price, as the response model requires. A limit above 100 is answered with the 422 and
  nothing is served. While the largest stored id is below \<open>2^63 - 1\<close>, a created item
  or user goes to the end of its table, so table order is insertion order. The task
  list route has no pagination: it returns the whole table.
\<close>

theorem C5_list_pagination:
  "(0 \<le> (case offset of None \<Rightarrow> 0 | Some n \<Rightarrow> n) \<and>
    (case offset of None \<Rightarrow> 0 | Some n \<Rightarrow> n) < 2 ^ 63 \<and>
    0 \<le> (case limit of None \<Rightarrow> 100 | Some n \<Rightarrow> n) \<and>
    (case limit of None \<Rightarrow> 100 | Some n \<Rightarrow> n) \<le> 100 \<longrightarrow>
      GET_users offset limit s =
        (Json 200 (map to_UserPublic
           (take (nat (case limit of None \<Rightarrow> 100 | Some n \<Rightarrow> n))
              (drop (nat (case offset of None \<Rightarrow> 0 | Some n \<Rightarrow> n)) (user_table s)))), s) \<and>
      ((\<forall>x\<in>set (take (nat (case limit of None \<Rightarrow> 100 | Some n \<Rightarrow> n))
              (drop (nat (case offset of None \<Rightarrow> 0 | Some n \<Rightarrow> n)) (item_table s))).
          0 < Item.price x) \<longrightarrow>
       GET_items offset limit s =
        (Json 200 (map to_ItemPublic
           (take (nat (case limit of None \<Rightarrow> 100 | Some n \<Rightarrow> n))
              (drop (nat (case offset of None \<Rightarrow> 0 | Some n \<Rightarrow> n)) (item_table s)))), s)) \<and>
      length (take (nat (case limit of None \<Rightarrow> 100 | Some n \<Rightarrow> n))
              (drop (nat (case offset of None \<Rightarrow> 0 | Some n \<Rightarrow> n)) (item_table s)))
        \<le> nat (case limit of None \<Rightarrow> 100 | Some n \<Rightarrow> n) \<and>
      length (take (nat (case limit of None \<Rightarrow> 100 | Some n \<Rightarrow> n))
              (drop (nat (case offset of None \<Rightarrow> 0 | Some n \<Rightarrow> n)) (user_table s)))
        \<le> nat (case limit of None \<Rightarrow> 100 | Some n \<Rightarrow> n) \<and>
      nat (case limit of None \<Rightarrow> 100 | Some n \<Rightarrow> n) \<le> 100)
   \<and> (100 < m \<longrightarrow>
        GET_items offset (Some m) s = (UnprocessableEntity, s) \<and>
        GET_users offset (Some m) s = (UnprocessableEntity, s))
   \<and> (ItemCreate_valid item \<and> (\<forall>x\<in>set (item_table s). Item.id x < 2 ^ 63 - 1) \<longrightarrow>
        (\<exists>row. item_table (snd (POST_items rnd item s)) = item_table s @ [row]))
   \<and> (fst (POST_users rnd h user s) = Json 201 b \<and>
       (\<forall>x\<in>set (user_table s). User.id x < 2 ^ 63 - 1) \<longrightarrow>
        (\<exists>row. user_table (snd (POST_users rnd h user s)) = user_table s @ [row]))
   \<and> read_tasks ts = (Return (TaskRows ts), ts)"
proof (intro conjI impI)
  assume a: "0 \<le> (case offset of None \<Rightarrow> 0 | Some n \<Rightarrow> n) \<and>
    (case offset of None \<Rightarrow> 0 | Some n \<Rightarrow> n) < 2 ^ 63 \<and>
    0 \<le> (case limit of None \<Rightarrow> 100 | Some n \<Rightarrow> n) \<and>
    (case limit of None \<Rightarrow> 100 | Some n \<Rightarrow> n) \<le> 100"
  then have r: "in_int64 (case offset of None \<Rightarrow> 0 | Some n \<Rightarrow> n)"
    "in_int64 (case limit of None \<Rightarrow> 100 | Some n \<Rightarrow> n)"
    by (simp_all add: in_int64_def)
  have u: "those (map response_UserPublic rows) = Some (map to_UserPublic rows)" for rows
    by (rule those_map_Some) (simp add: response_UserPublic_def)
  from a r u show "GET_users offset limit s =
        (Json 200 (map to_UserPublic
           (take (nat (case limit of None \<Rightarrow> 100 | Some n \<Rightarrow> n))
              (drop (nat (case offset of None \<Rightarrow> 0 | Some n \<Rightarrow> n)) (user_table s)))), s)"
    by (simp add: GET_users_def Let_def route_def read_users_def sql_offset_limit_def
        response_list_def)
  {
    assume "\<forall>x\<in>set (take (nat (case limit of None \<Rightarrow> 100 | Some n \<Rightarrow> n))
              (drop (nat (case offset of None \<Rightarrow> 0 | Some n \<Rightarrow> n)) (item_table s))).
          0 < Item.price x"
    then have "those (map response_ItemPublic
          (take (nat (case limit of None \<Rightarrow> 100 | Some n \<Rightarrow> n))
              (drop (nat (case offset of None \<Rightarrow> 0 | Some n \<Rightarrow> n)) (item_table s)))) =
        Some (map to_ItemPublic (take (nat (case limit of None \<Rightarrow> 100 | Some n \<Rightarrow> n))
              (drop (nat (case offset of None \<Rightarrow> 0 | Some n \<Rightarrow> n)) (item_table s))))"
      by (intro those_map_Some) (simp add: response_ItemPublic_def)
    with a r show "GET_items offset limit s =
        (Json 200 (map to_ItemPublic
           (take (nat (case limit of None \<Rightarrow> 100 | Some n \<Rightarrow> n))
              (drop (nat (case offset of None \<Rightarrow> 0 | Some n \<Rightarrow> n)) (item_table s)))), s)"
      by (simp add: GET_items_def Let_def route_def read_items_def sql_offset_limit_def
          response_list_def)
  }
  show "length (take (nat (case limit of None \<Rightarrow> 100 | Some n \<Rightarrow> n))
              (drop (nat (case offset of None \<Rightarrow> 0 | Some n \<Rightarrow> n)) (item_table s)))
        \<le> nat (case limit of None \<Rightarrow> 100 | Some n \<Rightarrow> n)"
    by simp
  show "length (take (nat (case limit of None \<Rightarrow> 100 | Some n \<Rightarrow> n))
              (drop (nat (case offset of None \<Rightarrow> 0 | Some n \<Rightarrow> n)) (user_table s)))
        \<le> nat (case limit of None \<Rightarrow> 100 | Some n \<Rightarrow> n)"
    by simp
  from a show "nat (case limit of None \<Rightarrow> 100 | Some n \<Rightarrow> n) \<le> 100"
    by (cases limit) auto
next
  assume "100 < m"
  then show "GET_items offset (Some m) s = (UnprocessableEntity, s)"
    and "GET_users offset (Some m) s = (UnprocessableEntity, s)"
    by (simp_all add: GET_items_def GET_users_def Let_def route_def)
next
  assume a: "ItemCreate_valid item \<and> (\<forall>x\<in>set (item_table s). Item.id x < 2 ^ 63 - 1)"
  then have "\<forall>x\<in>set (map Item.id (item_table s)). x < 2 ^ 63 - 1" by simp
  from next_rowid_below_the_bound[OF this, of rnd] obtain k where
    k: "next_rowid rnd (map Item.id (item_table s)) = Some k"
    "\<forall>x\<in>set (item_table s). Item.id x < k"
    by auto
  let ?row = "\<lparr>Item.id = k, Item.name = ItemCreate.name item,
         Item.description = ItemCreate.description item, Item.price = ItemCreate.price item,
         Item.owner_id = None\<rparr>"
  have "insort_key Item.id ?row (item_table s) = item_table s @ [?row]"
    using k(2) by (intro insort_key_largest) simp
  with a k(1) show "\<exists>row. item_table (snd (POST_items rnd item s)) = item_table s @ [row]"
    by (simp add: create_item_valid)
next
  assume a: "fst (POST_users rnd h user s) = Json 201 b \<and>
       (\<forall>x\<in>set (user_table s). User.id x < 2 ^ 63 - 1)"
  then have "POST_users rnd h user s = (Json 201 b, snd (POST_users rnd h user s))"
    by (metis prod.collapse)
  from create_user_json[OF this] obtain row where
    row: "next_rowid rnd (map User.id (user_table s)) = Some (User.id row)"
    "user_table (snd (POST_users rnd h user s)) = insort_key User.id row (user_table s)"
    by blast
  from a have "\<forall>x\<in>set (map User.id (user_table s)). x < 2 ^ 63 - 1" by simp
  from next_rowid_below_the_bound[OF this, of rnd] row(1)
  have "\<forall>x\<in>set (user_table s). User.id x < User.id row" by auto
  then have "insort_key User.id row (user_table s) = user_table s @ [row]"
    by (intro insort_key_largest)
  with row(2) show "\<exists>row. user_table (snd (POST_users rnd h user s)) = user_table s @ [row]"
    by auto
next
  show "read_tasks ts = (Return (TaskRows ts), ts)" by (simp add: read_tasks_def)
qed

theorem C5_list_pagination_witness:
  "(0::int) \<le> 1 \<and> (1::int) < 2 ^ 63 \<and> (1::int) \<le> 100 \<and> (100::int) < 101
   \<and> ItemCreate_valid \<lparr>ItemCreate.name = ''n'', ItemCreate.description = None,
                          ItemCreate.price = 2\<rparr>
   \<and> Item.id sample_item < 2 ^ 63 - 1 \<and> User.id alice < 2 ^ 63 - 1 \<and> User.id bob < 2 ^ 63 - 1
   \<and> 0 < Item.price sample_item
   \<and> GET_users (Some 1) (Some 1) sample_database = (Json 200 [to_UserPublic bob], sample_database)
   \<and> GET_items None None sample_database = (Json 200 [to_ItemPublic sample_item], sample_database)
   \<and> GET_items (Some 0) (Some 101) sample_database = (UnprocessableEntity, sample_database)
   \<and> (\<exists>row. item_table (snd (POST_items []
          \<lparr>ItemCreate.name = ''n'', ItemCreate.description = None, ItemCreate.price = 2\<rparr>
          sample_database)) = item_table sample_database @ [row])
   \<and> fst (POST_users [] tagging_hasher
          \<lparr>UserCreate.username = ''carol'', UserCreate.email = ''carol@example.com'',
           UserCreate.is_active = True, UserCreate.password = ''pw''\<rparr> sample_database) =
       Json 201 \<lparr>UserPublic.username = ''carol'', UserPublic.email = ''carol@example.com'',
                 UserPublic.is_active = True, UserPublic.id = 3\<rparr>
   \<and> (\<exists>row. user_table (snd (POST_users [] tagging_hasher
          \<lparr>UserCreate.username = ''carol'', UserCreate.email = ''carol@example.com'',
           UserCreate.is_active = True, UserCreate.password = ''pw''\<rparr> sample_database)) =
        user_table sample_database @ [row])"
proof -
  let ?item = "\<lparr>ItemCreate.name = ''n'', ItemCreate.description = None, ItemCreate.price = 2\<rparr>"
  let ?user = "\<lparr>UserCreate.username = ''carol'', UserCreate.email = ''carol@example.com'',
           UserCreate.is_active = True, UserCreate.password = ''pw''\<rparr>"
  let ?b = "\<lparr>UserPublic.username = ''carol'', UserPublic.email = ''carol@example.com'',
                 UserPublic.is_active = True, UserPublic.id = 3\<rparr>"
  have n: "(0::int) \<le> 1 \<and> (1::int) < 2 ^ 63 \<and> (1::int) \<le> 100 \<and> (100::int) < 101"
    by simp
  have b: "Item.id sample_item < 2 ^ 63 - 1 \<and> User.id alice < 2 ^ 63 - 1 \<and>
      User.id bob < 2 ^ 63 - 1 \<and> 0 < Item.price sample_item"
    by (simp add: sample_item_def alice_def bob_def)
  have v: "ItemCreate_valid ?item" by (simp add: ItemCreate_valid_def)
  have vi: "ItemCreate_valid ?item \<and>
      (\<forall>x\<in>set (item_table sample_database). Item.id x < 2 ^ 63 - 1)"
    using v b by (simp add: sample_database_def)
  have j: "fst (POST_users [] tagging_hasher ?user sample_database) = Json 201 ?b"
    by (simp add: POST_users_def route_def create_user_def sample_database_def alice_def bob_def
        next_rowid_def to_UserPublic_def response_UserPublic_def Let_def)
  have ju: "fst (POST_users [] tagging_hasher ?user sample_database) = Json 201 ?b \<and>
      (\<forall>x\<in>set (user_table sample_database). User.id x < 2 ^ 63 - 1)"
    using j b by (simp add: sample_database_def)
  have p: "0 \<le> (case Some (1::int) of None \<Rightarrow> 0 | Some n \<Rightarrow> n) \<and>
    (case Some (1::int) of None \<Rightarrow> 0 | Some n \<Rightarrow> n) < 2 ^ 63 \<and>
    0 \<le> (case Some (1::int) of None \<Rightarrow> 100 | Some n \<Rightarrow> n) \<and>
    (case Some (1::int) of None \<Rightarrow> 100 | Some n \<Rightarrow> n) \<le> 100"
    by simp
  have q: "0 \<le> (case None of None \<Rightarrow> (0::int) | Some n \<Rightarrow> n) \<and>
    (case None of None \<Rightarrow> (0::int) | Some n \<Rightarrow> n) < 2 ^ 63 \<and>
    0 \<le> (case None of None \<Rightarrow> (100::int) | Some n \<Rightarrow> n) \<and>
    (case None of None \<Rightarrow> (100::int) | Some n \<Rightarrow> n) \<le> 100"
    by simp
  have pos: "\<forall>x\<in>set (take (nat (case None of None \<Rightarrow> 100 | Some n \<Rightarrow> n))
              (drop (nat (case None of None \<Rightarrow> 0 | Some n \<Rightarrow> n)) (item_table sample_database))).
          0 < Item.price x"
    using b by (simp add: sample_database_def)
  have big: "(100::int) < 101" by simp
  note c1 = C5_list_pagination
    [where offset = "Some 1" and limit = "Some 1" and s = sample_database and m = 101
       and item = ?item and rnd = "[]" and h = tagging_hasher and user = ?user and b = ?b]
  note c2 = C5_list_pagination
    [where offset = None and limit = None and s = sample_database]
  note c3 = C5_list_pagination
    [where offset = "Some 0" and s = sample_database and m = 101]
  have "GET_users (Some 1) (Some 1) sample_database =
      (Json 200 (map to_UserPublic (take (nat 1) (drop (nat 1) (user_table sample_database)))),
       sample_database)"
    using c1[THEN conjunct1, THEN mp, OF p, THEN conjunct1] by simp
  then have g1: "GET_users (Some 1) (Some 1) sample_database =
      (Json 200 [to_UserPublic bob], sample_database)"
    by (simp add: sample_database_def)
  have "GET_items None None sample_database =
      (Json 200 (map to_ItemPublic (take (nat 100) (drop (nat 0) (item_table sample_database)))),
       sample_database)"
    using c2[THEN conjunct1, THEN mp, OF q, THEN conjunct2, THEN conjunct1, THEN mp, OF pos]
    by simp
  then have g2: "GET_items None None sample_database =
      (Json 200 [to_ItemPublic sample_item], sample_database)"
    by (simp add: sample_database_def)
  have g3: "GET_items (Some 0) (Some 101) sample_database =
      (UnprocessableEntity, sample_database)"
    using c3[THEN conjunct2, THEN conjunct1, THEN mp, OF big] by (rule conjunct1)
  have g4: "\<exists>row. item_table (snd (POST_items [] ?item sample_database)) =
      item_table sample_database @ [row]"
    using c1[THEN conjunct2, THEN conjunct2, THEN conjunct1, THEN mp, OF vi] .
  have g5: "\<exists>row. user_table (snd (POST_users [] tagging_hasher ?user sample_database)) =
        user_table sample_database @ [row]"
    using c1[THEN conjunct2, THEN conjunct2, THEN conjunct2, THEN conjunct1, THEN mp, OF ju] .
  from n b v j g1 g2 g3 g4 g5 show ?thesis by blast
qed

text \<open>
  C6, as the claim states it, fails for tasks: the body of \<open>create_task\<close> is the
  \<open>Task\<close> model itself, which has an \<open>id\<close> field, and the row is stored under the id
  the client sent.
\<close>

theorem C6_create_task_stores_the_id_of_the_body:
  "create_task [] \<lparr>TaskBody.id = Some 7, TaskBody.title = Some ''t'',
                    TaskBody.description = Some ''d'', TaskBody.completed = Some False\<rparr> [] =
     (Return (TaskCreated ''Task created successfully''
        \<lparr>Task.id = 7, Task.title = ''t'', Task.description = ''d'', Task.completed = False\<rparr>),
      [\<lparr>Task.id = 7, Task.title = ''t'', Task.description = ''d'', Task.completed = False\<rparr>])"
  by (simp add: create_task_def in_int64_def Let_def)

text \<open>
  C6, amended. When the store assigns a key (it always does while the largest stored id
  is below \<open>2^63 - 1\<close>), a valid item body, and a user body whose username and email
  are free and whose password the hasher digests, is answered with status 201 and
  exactly the public form of the row that was added; the id of that row is the key the
  store assigned, which no row of the table had, and it is not read from the body
  (\<open>ItemCreate\<close> and \<open>UserCreate\<close> have no id). A task body may carry an id: when it
  is within the signed 64-bit range, no row has it and the body has a title, a
  description and completed, the task is stored under that id; without an id the store
  assigns the key.
\<close>

theorem C6_create_answers_201_with_the_public_row:
  "(ItemCreate_valid item \<and> next_rowid rnd (map Item.id (item_table s)) = Some k \<longrightarrow>
      POST_items rnd item s =
        (Json 201 (to_ItemPublic
           \<lparr>Item.id = k, Item.name = ItemCreate.name item,
            Item.description = ItemCreate.description item, Item.price = ItemCreate.price item,
            Item.owner_id = None\<rparr>),
         s\<lparr>item_table := insort_key Item.id
           \<lparr>Item.id = k, Item.name = ItemCreate.name item,
            Item.description = ItemCreate.description item, Item.price = ItemCreate.price item,
            Item.owner_id = None\<rparr> (item_table s)\<rparr>) \<and>
      k \<notin> Item.id ` set (item_table s))
   \<and>
   ((\<forall>x\<in>set (item_table s). Item.id x < 2 ^ 63 - 1) \<longrightarrow>
      (\<exists>k'. next_rowid rnd (map Item.id (item_table s)) = Some k'))
   \<and>
   (UserCreate.username user \<notin> User.username ` set (user_table s) \<and>
    UserCreate.email user \<notin> User.email ` set (user_table s) \<and>
    h (Some (UserCreate.password user)) = Return d \<and>
    next_rowid rnd (map User.id (user_table s)) = Some j \<longrightarrow>
      POST_users rnd h user s =
        (Json 201 (to_UserPublic
           \<lparr>User.id = j,
            User.username = UserCreate.username user, User.email = UserCreate.email user,
            User.is_active = True, User.hashed_password = d\<rparr>),
         s\<lparr>user_table := insort_key User.id
           \<lparr>User.id = j,
            User.username = UserCreate.username user, User.email = UserCreate.email user,
            User.is_active = True, User.hashed_password = d\<rparr> (user_table s)\<rparr>) \<and>
      j \<notin> User.id ` set (user_table s))
   \<and>
   ((\<forall>x\<in>set (user_table s). User.id x < 2 ^ 63 - 1) \<longrightarrow>
      (\<exists>j'. next_rowid rnd (map User.id (user_table s)) = Some j'))
   \<and>
   (TaskBody.id task = Some i \<and> in_int64 i \<and> i \<notin> Task.id ` set ts \<and>
    TaskBody.title task = Some a \<and> TaskBody.description task = Some b \<and>
    TaskBody.completed task = Some c \<longrightarrow>
      create_task rnd task ts =
        (Return (TaskCreated ''Task created successfully''
           \<lparr>Task.id = i, Task.title = a, Task.description = b, Task.completed = c\<rparr>),
         insort_key Task.id
           \<lparr>Task.id = i, Task.title = a, Task.description = b, Task.completed = c\<rparr> ts))
   \<and>
   (TaskBody.id task = None \<and> next_rowid rnd (map Task.id ts) = Some n \<and>
    TaskBody.title task = Some a \<and> TaskBody.description task = Some b \<and>
    TaskBody.completed task = Some c \<longrightarrow>
      create_task rnd task ts =
        (Return (TaskCreated ''Task created successfully''
           \<lparr>Task.id = n, Task.title = a, Task.description = b, Task.completed = c\<rparr>),
         insort_key Task.id
           \<lparr>Task.id = n, Task.title = a, Task.description = b, Task.completed = c\<rparr> ts))"
proof (intro conjI impI)
  assume a: "ItemCreate_valid item \<and> next_rowid rnd (map Item.id (item_table s)) = Some k"
  then show "POST_items rnd item s =
        (Json 201 (to_ItemPublic
           \<lparr>Item.id = k, Item.name = ItemCreate.name item,
            Item.description = ItemCreate.description item, Item.price = ItemCreate.price item,
            Item.owner_id = None\<rparr>),
         s\<lparr>item_table := insort_key Item.id
           \<lparr>Item.id = k, Item.name = ItemCreate.name item,
            Item.description = ItemCreate.description item, Item.price = ItemCreate.price item,
            Item.owner_id = None\<rparr> (item_table s)\<rparr>)"
    by (simp add: create_item_valid)
  from a show "k \<notin> Item.id ` set (item_table s)"
    using next_rowid_fresh[of rnd "map Item.id (item_table s)" k] by simp
next
  assume "\<forall>x\<in>set (item_table s). Item.id x < 2 ^ 63 - 1"
  then have "\<forall>x\<in>set (map Item.id (item_table s)). x < 2 ^ 63 - 1" by simp
  from next_rowid_below_the_bound[OF this, of rnd]
  show "\<exists>k'. next_rowid rnd (map Item.id (item_table s)) = Some k'" by blast
next
  assume a: "UserCreate.username user \<notin> User.username ` set (user_table s) \<and>
    UserCreate.email user \<notin> User.email ` set (user_table s) \<and>
    h (Some (UserCreate.password user)) = Return d \<and>
    next_rowid rnd (map User.id (user_table s)) = Some j"
  then show "POST_users rnd h user s =
        (Json 201 (to_UserPublic
           \<lparr>User.id = j,
            User.username = UserCreate.username user, User.email = UserCreate.email user,
            User.is_active = True, User.hashed_password = d\<rparr>),
         s\<lparr>user_table := insort_key User.id
           \<lparr>User.id = j,
            User.username = UserCreate.username user, User.email = UserCreate.email user,
            User.is_active = True, User.hashed_password = d\<rparr> (user_table s)\<rparr>)"
    by (simp add: create_user_fresh)
  from a show "j \<notin> User.id ` set (user_table s)"
    using next_rowid_fresh[of rnd "map User.id (user_table s)" j] by simp
next
  assume "\<forall>x\<in>set (user_table s). User.id x < 2 ^ 63 - 1"
  then have "\<forall>x\<in>set (map User.id (user_table s)). x < 2 ^ 63 - 1" by simp
  from next_rowid_below_the_bound[OF this, of rnd]
  show "\<exists>j'. next_rowid rnd (map User.id (user_table s)) = Some j'" by blast
next
  assume "TaskBody.id task = Some i \<and> in_int64 i \<and> i \<notin> Task.id ` set ts \<and>
    TaskBody.title task = Some a \<and> TaskBody.description task = Some b \<and>
    TaskBody.completed task = Some c"
  then show "create_task rnd task ts =
        (Return (TaskCreated ''Task created successfully''
           \<lparr>Task.id = i, Task.title = a, Task.description = b, Task.completed = c\<rparr>),
         insort_key Task.id
           \<lparr>Task.id = i, Task.title = a, Task.description = b, Task.completed = c\<rparr> ts)"
    by (simp add: create_task_def Let_def)
next
  assume a: "TaskBody.id task = None \<and> next_rowid rnd (map Task.id ts) = Some n \<and>
    TaskBody.title task = Some a \<and> TaskBody.description task = Some b \<and>
    TaskBody.completed task = Some c"
  then have "n \<notin> Task.id ` set ts"
    using next_rowid_fresh[of rnd "map Task.id ts" n] by simp
  with a show "create_task rnd task ts =
        (Return (TaskCreated ''Task created successfully''
           \<lparr>Task.id = n, Task.title = a, Task.description = b, Task.completed = c\<rparr>),
         insort_key Task.id
           \<lparr>Task.id = n, Task.title = a, Task.description = b, Task.completed = c\<rparr> ts)"
    by (simp add: create_task_def Let_def)
qed

text \<open>
  The first step of the end-to-end scenario of the specification: on the empty database,
  \<open>POST /items/ {"name": "Test Item", "price": 10.99}\<close> answers 201 with id 1; carol
  becomes user 3 of the sample database; a task sent with id 7, and one sent without an
  id, go into a table that holds task 3.
\<close>

theorem C6_create_answers_201_with_the_public_row_witness:
  "ItemCreate_valid \<lparr>ItemCreate.name = ''Test Item'', ItemCreate.description = None,
                     ItemCreate.price = 10.99\<rparr>
   \<and> next_rowid [] (map Item.id (item_table empty_database)) = Some 1
   \<and> ''carol'' \<notin> User.username ` set (user_table sample_database)
   \<and> ''carol@example.com'' \<notin> User.email ` set (user_table sample_database)
   \<and> tagging_hasher (Some ''pw'') = Return ''digest:pw''
   \<and> next_rowid [] (map User.id (user_table sample_database)) = Some 3
   \<and> in_int64 7 \<and> (7::int) \<notin> Task.id ` set [sample_task 3]
   \<and> next_rowid [] (map Task.id [sample_task 3]) = Some 4
   \<and> fst (POST_items [] \<lparr>ItemCreate.name = ''Test Item'', ItemCreate.description = None,
                          ItemCreate.price = 10.99\<rparr> empty_database) =
       Json 201 \<lparr>ItemPublic.name = ''Test Item'', ItemPublic.description = None,
                 ItemPublic.price = 10.99, ItemPublic.id = 1, ItemPublic.owner_id = None\<rparr>
   \<and> fst (POST_users [] tagging_hasher
          \<lparr>UserCreate.username = ''carol'', UserCreate.email = ''carol@example.com'',
           UserCreate.is_active = False, UserCreate.password = ''pw''\<rparr> sample_database) =
       Json 201 \<lparr>UserPublic.username = ''carol'', UserPublic.email = ''carol@example.com'',
                 UserPublic.is_active = True, UserPublic.id = 3\<rparr>
   \<and> map Task.id (snd (create_task []
          \<lparr>TaskBody.id = Some 7, TaskBody.title = Some ''t'', TaskBody.description = Some ''d'',
           TaskBody.completed = Some False\<rparr> [sample_task 3])) = [3, 7]
   \<and> map Task.id (snd (create_task []
          \<lparr>TaskBody.id = None, TaskBody.title = Some ''t'', TaskBody.description = Some ''d'',
           TaskBody.completed = Some False\<rparr> [sample_task 3])) = [3, 4]"
proof -
  let ?item = "\<lparr>ItemCreate.name = ''Test Item'', ItemCreate.description = None,
                     ItemCreate.price = 10.99\<rparr>"
  let ?user = "\<lparr>UserCreate.username = ''carol'', UserCreate.email = ''carol@example.com'',
           UserCreate.is_active = False, UserCreate.password = ''pw''\<rparr>"
  let ?t7 = "\<lparr>TaskBody.id = Some 7, TaskBody.title = Some ''t'',
           TaskBody.description = Some ''d'', TaskBody.completed = Some False\<rparr>"
  let ?t0 = "\<lparr>TaskBody.id = None, TaskBody.title = Some ''t'',
           TaskBody.description = Some ''d'', TaskBody.completed = Some False\<rparr>"
  have v: "ItemCreate_valid ?item \<and>
      next_rowid [] (map Item.id (item_table empty_database)) = Some 1"
    by (simp add: ItemCreate_valid_def next_rowid_def empty_database_def)
  have u: "UserCreate.username ?user \<notin> User.username ` set (user_table sample_database) \<and>
    UserCreate.email ?user \<notin> User.email ` set (user_table sample_database) \<and>
    tagging_hasher (Some (UserCreate.password ?user)) = Return ''digest:pw'' \<and>
    next_rowid [] (map User.id (user_table sample_database)) = Some 3"
    by (simp add: sample_database_def alice_def bob_def next_rowid_def)
  have t: "TaskBody.id ?t7 = Some 7 \<and> in_int64 7 \<and> 7 \<notin> Task.id ` set [sample_task 3] \<and>
    TaskBody.title ?t7 = Some ''t'' \<and> TaskBody.description ?t7 = Some ''d'' \<and>
    TaskBody.completed ?t7 = Some False"
    by (simp add: sample_task_def in_int64_def)
  have n: "TaskBody.id ?t0 = None \<and> next_rowid [] (map Task.id [sample_task 3]) = Some 4 \<and>
    TaskBody.title ?t0 = Some ''t'' \<and> TaskBody.description ?t0 = Some ''d'' \<and>
    TaskBody.completed ?t0 = Some False"
    by (simp add: sample_task_def next_rowid_def)
  note ci = C6_create_answers_201_with_the_public_row
    [where item = ?item and s = empty_database and rnd = "[]" and k = 1]
  note cu = C6_create_answers_201_with_the_public_row
    [where user = ?user and s = sample_database and rnd = "[]" and h = tagging_hasher
       and d = "''digest:pw''" and j = 3]
  note c7 = C6_create_answers_201_with_the_public_row
    [where task = ?t7 and i = 7 and ts = "[sample_task 3]" and rnd = "[]"
       and a = "''t''" and b = "''d''" and c = False]
  note c0 = C6_create_answers_201_with_the_public_row
    [where task = ?t0 and ts = "[sample_task 3]" and rnd = "[]" and n = 4
       and a = "''t''" and b = "''d''" and c = False]
  have g1: "fst (POST_items [] ?item empty_database) =
       Json 201 \<lparr>ItemPublic.name = ''Test Item'', ItemPublic.description = None,
                 ItemPublic.price = 10.99, ItemPublic.id = 1, ItemPublic.owner_id = None\<rparr>"
    using ci[THEN conjunct1, THEN mp, OF v, THEN conjunct1]
    by (simp add: to_ItemPublic_def)
  have g2: "fst (POST_users [] tagging_hasher ?user sample_database) =
       Json 201 \<lparr>UserPublic.username = ''carol'', UserPublic.email = ''carol@example.com'',
                 UserPublic.is_active = True, UserPublic.id = 3\<rparr>"
    using cu[THEN conjunct2, THEN conjunct2, THEN conjunct1, THEN mp, OF u, THEN conjunct1]
    by (simp add: to_UserPublic_def)
  have g3: "map Task.id (snd (create_task [] ?t7 [sample_task 3])) = [3, 7]"
    using c7[THEN conjunct2, THEN conjunct2, THEN conjunct2, THEN conjunct2, THEN conjunct1,
        THEN mp, OF t]
    by (simp add: sample_task_def)
  have g4: "map Task.id (snd (create_task [] ?t0 [sample_task 3])) = [3, 4]"
    using c0[THEN conjunct2, THEN conjunct2, THEN conjunct2, THEN conjunct2, THEN conjunct2,
        THEN mp, OF n]
    by (simp add: sample_task_def)
  from v u t n g1 g2 g3 g4 show ?thesis by simp
qed

section \<open>Passwords\<close>

lemma error_response_not_json: "error_response e \<noteq> Json c b"
  by (cases e) simp_all

lemma update_user_return:
  assumes "update_user h i user s = (Return row, t)"
  shows "session_get User.id (user_table t) i = Return (Some row) \<and>
         (\<forall>pw. UserUpdate.password user = Set pw \<longrightarrow> h pw = Return (User.hashed_password row))"
proof -
  from assms obtain r where g: "session_get User.id (user_table s) i = Return (Some r)"
    by (auto simp: update_user_def split: outcome.splits option.splits)
  then have k: "User.id r = i" by (rule session_get_key)
  from assms g k show ?thesis
    by (auto simp: update_user_def Let_def session_get_map_update
        split: option.splits outcome.splits field.splits prod.splits if_splits)
qed

lemma update_user_json:
  assumes "PATCH_user h i upd s = (Json c b, s')"
  shows "\<exists>row. session_get User.id (user_table s') i = Return (Some row) \<and>
           b = to_UserPublic row \<and> c = 200 \<and>
           (\<forall>pw. UserUpdate.password upd = Set pw \<longrightarrow> h pw = Return (User.hashed_password row))"
proof (cases "update_user h i upd s")
  case (Pair out t)
  show ?thesis
  proof (cases out)
    case (Raise e)
    with Pair assms show ?thesis
      by (simp add: PATCH_user_def route_def error_response_not_json)
  next
    case (Return row)
    with Pair assms have "s' = t" "b = to_UserPublic row" "c = 200"
      by (auto simp: PATCH_user_def route_def response_UserPublic_def)
    with update_user_return[of h i upd s row t] Pair Return show ?thesis by blast
  qed
qed

lemma read_user_json:
  assumes "GET_user i s = (Json c b, s')"
  shows "\<exists>row. row \<in> set (user_table s) \<and> b = to_UserPublic row"
proof (cases "session_get User.id (user_table s) i")
  case (Raise e)
  with assms show ?thesis
    by (simp add: GET_user_def route_def read_user_def error_response_not_json)
next
  case (Return found)
  show ?thesis
  proof (cases found)
    case None
    with Return assms show ?thesis by (simp add: missing_user_404)
  next
    case (Some row)
    with Return have "row \<in> set (user_table s)" by (intro session_get_mem) simp
    with Some Return assms show ?thesis
      by (auto simp: GET_user_def route_def read_user_def response_UserPublic_def)
  qed
qed

lemma read_users_json:
  assumes "GET_users offset limit s = (Json c bs, s')"
  shows "\<exists>rows. set rows \<subseteq> set (user_table s) \<and> bs = map to_UserPublic rows"
proof -
  have sub: "sql_offset_limit a b (user_table s) = Return rows \<Longrightarrow>
      set rows \<subseteq> set (user_table s)" for a b rows
    by (auto simp: sql_offset_limit_def split: if_splits dest: in_set_takeD in_set_dropD)
  have u: "those (map response_UserPublic rows) = Some (map to_UserPublic rows)" for rows
    by (rule those_map_Some) (simp add: response_UserPublic_def)
  let ?o = "case offset of None \<Rightarrow> 0 | Some n \<Rightarrow> n"
  let ?l = "case limit of None \<Rightarrow> 100 | Some n \<Rightarrow> n"
  show ?thesis
  proof (cases "sql_offset_limit ?o ?l (user_table s)")
    case (Raise e)
    with assms show ?thesis
      by (auto simp: GET_users_def Let_def route_def read_users_def error_response_not_json
          split: if_splits)
  next
    case (Return rows)
    with assms u have "bs = map to_UserPublic rows"
      by (auto simp: GET_users_def Let_def route_def read_users_def response_list_def
          split: if_splits)
    with sub[OF Return] show ?thesis by blast
  qed
qed

lemma create_user_response_ignores_password:
  assumes "h (Some p1) = Return d1" and "h (Some p2) = Return d2"
  shows "fst (POST_users rnd h (user\<lparr>UserCreate.password := p1\<rparr>) s) =
         fst (POST_users rnd h (user\<lparr>UserCreate.password := p2\<rparr>) s)"
proof (cases "UserCreate.username user \<in> User.username ` set (user_table s)")
  case True
  then show ?thesis by (simp add: create_user_username_taken)
next
  case u: False
  show ?thesis
  proof (cases "UserCreate.email user \<in> User.email ` set (user_table s)")
    case True
    with u show ?thesis by (simp add: create_user_email_taken)
  next
    case e: False
    have fu: "find (\<lambda>x. User.username x = UserCreate.username user) (user_table s) = None"
      using u by (simp add: find_None_image)
    have fe: "find (\<lambda>x. User.email x = UserCreate.email user) (user_table s) = None"
      using e by (simp add: find_None_image)
    show ?thesis
    proof (cases "next_rowid rnd (map User.id (user_table s))")
      case None
      with fu fe assms show ?thesis
        by (simp add: POST_users_def route_def create_user_def)
    next
      case (Some k)
      with u e assms show ?thesis
        by (simp add: create_user_fresh to_UserPublic_def)
    qed
  qed
qed

text \<open>
  C7. A user body with a password is persisted with the digest \<open>get_password_hash\<close>
  returns for that password, never with the password itself, and every body that the
  create, get, list and update routes answer is the public form (\<open>UserPublic\<close>:
  username, email, is\_active, id) of stored rows. The public form does not depend on
  the stored digest, and the answer to a create does not depend on the password sent.
  (That the digest is one-way is a property of \<open>get_password_hash\<close>, which the routes
  take as given.)
\<close>

theorem C7_passwords_are_hashed_and_never_returned:
  "(POST_users rnd h user s = (Json c1 b1, s1) \<longrightarrow>
      (\<exists>row. h (Some (UserCreate.password user)) = Return (User.hashed_password row) \<and>
             user_table s1 = insort_key User.id row (user_table s) \<and>
             b1 = to_UserPublic row))
   \<and> (PATCH_user h i upd s = (Json c2 b2, s2) \<longrightarrow>
      (\<exists>row. session_get User.id (user_table s2) i = Return (Some row) \<and>
             b2 = to_UserPublic row \<and>
             (\<forall>pw. UserUpdate.password upd = Set pw \<longrightarrow>
                h pw = Return (User.hashed_password row))))
   \<and> (GET_user j s = (Json c3 b3, s3) \<longrightarrow>
      (\<exists>row. row \<in> set (user_table s) \<and> b3 = to_UserPublic row))
   \<and> (GET_users offset limit s = (Json c4 bs, s4) \<longrightarrow>
      (\<exists>rows. set rows \<subseteq> set (user_table s) \<and> bs = map to_UserPublic rows))
   \<and> to_UserPublic (u\<lparr>User.hashed_password := d\<rparr>) = to_UserPublic u
   \<and> (h (Some p1) = Return d1 \<and> h (Some p2) = Return d2 \<longrightarrow>
        fst (POST_users rnd h (user\<lparr>UserCreate.password := p1\<rparr>) s) =
        fst (POST_users rnd h (user\<lparr>UserCreate.password := p2\<rparr>) s))"
proof (intro conjI impI)
  assume "POST_users rnd h user s = (Json c1 b1, s1)"
  from create_user_json[OF this]
  show "\<exists>row. h (Some (UserCreate.password user)) = Return (User.hashed_password row) \<and>
             user_table s1 = insort_key User.id row (user_table s) \<and> b1 = to_UserPublic row"
    by blast
next
  assume "PATCH_user h i upd s = (Json c2 b2, s2)"
  from update_user_json[OF this]
  show "\<exists>row. session_get User.id (user_table s2) i = Return (Some row) \<and>
             b2 = to_UserPublic row \<and>
             (\<forall>pw. UserUpdate.password upd = Set pw \<longrightarrow>
                h pw = Return (User.hashed_password row))"
    by blast
next
  assume "GET_user j s = (Json c3 b3, s3)"
  then show "\<exists>row. row \<in> set (user_table s) \<and> b3 = to_UserPublic row"
    by (rule read_user_json)
next
  assume "GET_users offset limit s = (Json c4 bs, s4)"
  then show "\<exists>rows. set rows \<subseteq> set (user_table s) \<and> bs = map to_UserPublic rows"
    by (rule read_users_json)
next
  show "to_UserPublic (u\<lparr>User.hashed_password := d\<rparr>) = to_UserPublic u"
    by (simp add: to_UserPublic_def)
next
  assume "h (Some p1) = Return d1 \<and> h (Some p2) = Return d2"
  then show "fst (POST_users rnd h (user\<lparr>UserCreate.password := p1\<rparr>) s) =
        fst (POST_users rnd h (user\<lparr>UserCreate.password := p2\<rparr>) s)"
    using create_user_response_ignores_password by blast
qed

text \<open>
  On the sample database: carol is created with the password \<open>pw\<close> and stored with the
  digest of the tagging hasher; bob's password is changed; alice is read; the users are
  listed; and creating carol with password \<open>a\<close> or \<open>b\<close> is answered alike.
\<close>

theorem C7_passwords_are_hashed_and_never_returned_witness:
  "fst (POST_users [] tagging_hasher
          \<lparr>UserCreate.username = ''carol'', UserCreate.email = ''carol@example.com'',
           UserCreate.is_active = True, UserCreate.password = ''pw''\<rparr> sample_database) =
     Json 201 \<lparr>UserPublic.username = ''carol'', UserPublic.email = ''carol@example.com'',
               UserPublic.is_active = True, UserPublic.id = 3\<rparr>
   \<and> (\<exists>row. User.hashed_password row = ''digest:pw'' \<and>
          user_table (snd (POST_users [] tagging_hasher
            \<lparr>UserCreate.username = ''carol'', UserCreate.email = ''carol@example.com'',
             UserCreate.is_active = True, UserCreate.password = ''pw''\<rparr> sample_database)) =
          insort_key User.id row (user_table sample_database))
   \<and> fst (PATCH_user tagging_hasher 2
          \<lparr>UserUpdate.username = Unset, UserUpdate.email = Unset,
           UserUpdate.password = Set (Some ''new''), UserUpdate.is_active = Unset\<rparr>
          sample_database) = Json 200 (to_UserPublic bob)
   \<and> (\<exists>row. session_get User.id (user_table (snd (PATCH_user tagging_hasher 2
          \<lparr>UserUpdate.username = Unset, UserUpdate.email = Unset,
           UserUpdate.password = Set (Some ''new''), UserUpdate.is_active = Unset\<rparr>
          sample_database))) 2 = Return (Some row) \<and>
          User.hashed_password row = ''digest:new'')
   \<and> GET_user 1 sample_database = (Json 200 (to_UserPublic alice), sample_database)
   \<and> (\<exists>row. row \<in> set (user_table sample_database) \<and> to_UserPublic alice = to_UserPublic row)
   \<and> GET_users None None sample_database =
       (Json 200 [to_UserPublic alice, to_UserPublic bob], sample_database)
   \<and> (\<exists>rows. set rows \<subseteq> set (user_table sample_database) \<and>
          [to_UserPublic alice, to_UserPublic bob] = map to_UserPublic rows)
   \<and> tagging_hasher (Some ''a'') = Return ''digest:a''
   \<and> tagging_hasher (Some ''b'') = Return ''digest:b''
   \<and> fst (POST_users [] tagging_hasher
          \<lparr>UserCreate.username = ''carol'', UserCreate.email = ''carol@example.com'',
           UserCreate.is_active = True, UserCreate.password = ''a''\<rparr> sample_database) =
       fst (POST_users [] tagging_hasher
          \<lparr>UserCreate.username = ''carol'', UserCreate.email = ''carol@example.com'',
           UserCreate.is_active = True, UserCreate.password = ''b''\<rparr> sample_database)"
proof -
  let ?carol = "\<lparr>UserCreate.username = ''carol'', UserCreate.email = ''carol@example.com'',
           UserCreate.is_active = True, UserCreate.password = ''pw''\<rparr>"
  let ?b = "\<lparr>UserPublic.username = ''carol'', UserPublic.email = ''carol@example.com'',
               UserPublic.is_active = True, UserPublic.id = 3\<rparr>"
  let ?upd = "\<lparr>UserUpdate.username = Unset, UserUpdate.email = Unset,
           UserUpdate.password = Set (Some ''new''), UserUpdate.is_active = Unset\<rparr>"
  let ?s1 = "snd (POST_users [] tagging_hasher ?carol sample_database)"
  let ?s2 = "snd (PATCH_user tagging_hasher 2 ?upd sample_database)"
  have f1: "fst (POST_users [] tagging_hasher ?carol sample_database) = Json 201 ?b"
    by (simp add: POST_users_def route_def create_user_def sample_database_def alice_def bob_def
        next_rowid_def to_UserPublic_def response_UserPublic_def Let_def)
  then have h1: "POST_users [] tagging_hasher ?carol sample_database = (Json 201 ?b, ?s1)"
    by (metis prod.collapse)
  have f2: "fst (PATCH_user tagging_hasher 2 ?upd sample_database) = Json 200 (to_UserPublic bob)"
    by (simp add: PATCH_user_def route_def update_user_def session_get_def in_int64_def
        sample_database_def alice_def bob_def to_UserPublic_def response_UserPublic_def Let_def)
  then have h2: "PATCH_user tagging_hasher 2 ?upd sample_database =
      (Json 200 (to_UserPublic bob), ?s2)"
    by (metis prod.collapse)
  have h3: "GET_user 1 sample_database = (Json 200 (to_UserPublic alice), sample_database)"
    by (simp add: GET_user_def route_def read_user_def session_get_def in_int64_def
        sample_database_def alice_def response_UserPublic_def)
  have h4: "GET_users None None sample_database =
       (Json 200 [to_UserPublic alice, to_UserPublic bob], sample_database)"
    by (simp add: GET_users_def route_def read_users_def sql_offset_limit_def in_int64_def
        sample_database_def response_list_def response_UserPublic_def)
  have h5: "tagging_hasher (Some ''a'') = Return ''digest:a'' \<and>
            tagging_hasher (Some ''b'') = Return ''digest:b''"
    by simp
  note c = C7_passwords_are_hashed_and_never_returned
    [where rnd = "[]" and h = tagging_hasher and user = ?carol and s = sample_database and ?c1.0 = 201
       and ?b1.0 = ?b and ?s1.0 = ?s1 and i = 2 and upd = ?upd and ?c2.0 = 200
       and ?b2.0 = "to_UserPublic bob" and ?s2.0 = ?s2 and j = 1 and ?c3.0 = 200
       and ?b3.0 = "to_UserPublic alice" and ?s3.0 = sample_database
       and offset = None and limit = None and ?c4.0 = 200
       and bs = "[to_UserPublic alice, to_UserPublic bob]" and ?s4.0 = sample_database
       and ?p1.0 = "''a''" and ?p2.0 = "''b''" and ?d1.0 = "''digest:a''"
       and ?d2.0 = "''digest:b''"]
  from c h1 obtain row where
    "tagging_hasher (Some (UserCreate.password ?carol)) = Return (User.hashed_password row)"
    "user_table ?s1 = insort_key User.id row (user_table sample_database)"
    by blast
  then have g1: "\<exists>row. User.hashed_password row = ''digest:pw'' \<and>
      user_table ?s1 = insort_key User.id row (user_table sample_database)"
    by auto
  from c h2 obtain row2 where
    "session_get User.id (user_table ?s2) 2 = Return (Some row2)"
    "\<forall>pw. UserUpdate.password ?upd = Set pw \<longrightarrow>
       tagging_hasher pw = Return (User.hashed_password row2)"
    by blast
  then have g2: "\<exists>row. session_get User.id (user_table ?s2) 2 = Return (Some row) \<and>
      User.hashed_password row = ''digest:new''"
    by auto
  from c h3 have g3: "\<exists>row. row \<in> set (user_table sample_database) \<and>
      to_UserPublic alice = to_UserPublic row"
    by blast
  from c h4 have g4: "\<exists>rows. set rows \<subseteq> set (user_table sample_database) \<and>
      [to_UserPublic alice, to_UserPublic bob] = map to_UserPublic rows"
    by blast
  from c h5 have g5: "fst (POST_users [] tagging_hasher (?carol\<lparr>UserCreate.password := ''a''\<rparr>)
        sample_database) =
      fst (POST_users [] tagging_hasher (?carol\<lparr>UserCreate.password := ''b''\<rparr>) sample_database)"
    by blast
  then have g5': "fst (POST_users [] tagging_hasher
          \<lparr>UserCreate.username = ''carol'', UserCreate.email = ''carol@example.com'',
           UserCreate.is_active = True, UserCreate.password = ''a''\<rparr> sample_database) =
       fst (POST_users [] tagging_hasher
          \<lparr>UserCreate.username = ''carol'', UserCreate.email = ''carol@example.com'',
           UserCreate.is_active = True, UserCreate.password = ''b''\<rparr> sample_database)"
    by simp
  from f1 g1 f2 g2 h3 g3 h4 g4 h5 g5' show ?thesis by blast
qed

section \<open>Authentication\<close>

text \<open>
  C9. A login with a username that no user has and a login with a stored username and a
  password that \<open>verify_password\<close> rejects get the same answer: status 401, detail
  "Incorrect username or password", header \<open>WWW-Authenticate: Bearer\<close>; the database
  is not changed.
\<close>

theorem C9_failed_logins_are_indistinguishable:
  "find (\<lambda>u. User.username u = name1) (user_table s) = None \<and>
   find (\<lambda>u. User.username u = name2) (user_table s) = Some usr \<and>
   \<not> verify_password pw2 (User.hashed_password usr) \<longrightarrow>
     POST_token verify_password create_access_token minutes name1 pw1 s =
       POST_token verify_password create_access_token minutes name2 pw2 s \<and>
     POST_token verify_password create_access_token minutes name1 pw1 s =
       (HttpError 401 ''Incorrect username or password'' [(''WWW-Authenticate'', ''Bearer'')], s)"
  by (simp add: POST_token_def route_def login_for_access_token_def)

theorem C9_failed_logins_are_indistinguishable_witness:
  "find (\<lambda>u. User.username u = ''mallory'') (user_table sample_database) = None
   \<and> find (\<lambda>u. User.username u = ''alice'') (user_table sample_database) = Some alice
   \<and> \<not> (\<lambda>pw digest. digest = ''digest-'' @ pw) ''wrong'' (User.hashed_password alice)
   \<and> (\<lambda>pw digest. digest = ''digest-'' @ pw) ''a'' (User.hashed_password alice)
   \<and> POST_token (\<lambda>pw digest. digest = ''digest-'' @ pw) (\<lambda>name minutes. name) 30
        ''mallory'' ''a'' sample_database =
       POST_token (\<lambda>pw digest. digest = ''digest-'' @ pw) (\<lambda>name minutes. name) 30
        ''alice'' ''wrong'' sample_database
   \<and> status_code (fst (POST_token (\<lambda>pw digest. digest = ''digest-'' @ pw)
        (\<lambda>name minutes. name) 30 ''alice'' ''wrong'' sample_database)) = 401
   \<and> status_code (fst (POST_token (\<lambda>pw digest. digest = ''digest-'' @ pw)
        (\<lambda>name minutes. name) 30 ''alice'' ''a'' sample_database)) = 200"
proof -
  let ?verify = "\<lambda>pw digest. digest = ''digest-'' @ pw"
  let ?token = "\<lambda>name (minutes::int). name :: string"
  have h: "find (\<lambda>u. User.username u = ''mallory'') (user_table sample_database) = None \<and>
      find (\<lambda>u. User.username u = ''alice'') (user_table sample_database) = Some alice \<and>
      \<not> ?verify ''wrong'' (User.hashed_password alice)"
    by (simp add: sample_database_def alice_def bob_def)
  have ok: "?verify ''a'' (User.hashed_password alice)" by (simp add: alice_def)
  have good: "status_code (fst (POST_token ?verify ?token 30 ''alice'' ''a'' sample_database)) = 200"
    by (simp add: POST_token_def route_def login_for_access_token_def sample_database_def
        alice_def)
  from C9_failed_logins_are_indistinguishable
    [of "''mallory''" sample_database "''alice''" alice ?verify "''wrong''" ?token 30 "''a''"] h
  have e: "POST_token ?verify ?token 30 ''mallory'' ''a'' sample_database =
        POST_token ?verify ?token 30 ''alice'' ''wrong'' sample_database"
    and r: "POST_token ?verify ?token 30 ''mallory'' ''a'' sample_database =
       (HttpError 401 ''Incorrect username or password'' [(''WWW-Authenticate'', ''Bearer'')],
        sample_database)"
    by blast+
  from e r have "status_code (fst (POST_token ?verify ?token 30 ''alice'' ''wrong''
      sample_database)) = 401"
    by simp
  with h ok good e show ?thesis by blast
qed

section \<open>The owner of an item\<close>

lemma post_users_item_table: "item_table (snd (POST_users rnd h user s)) = item_table s"
proof (cases "create_user rnd h user s")
  case (Pair out t)
  then have "item_table t = item_table s"
    by (auto simp: create_user_def Let_def split: option.splits outcome.splits)
  with Pair show ?thesis by (simp add: POST_users_def route_def)
qed

lemma patch_user_item_table: "item_table (snd (PATCH_user h i user s)) = item_table s"
proof (cases "update_user h i user s")
  case (Pair out t)
  then have "item_table t = item_table s"
    by (auto simp: update_user_def Let_def
        split: option.splits outcome.splits field.splits prod.splits if_splits)
  with Pair show ?thesis by (simp add: PATCH_user_def route_def)
qed

lemma delete_user_item_table: "item_table (snd (DELETE_user i s)) = item_table s"
  by (auto simp: DELETE_user_def route_def delete_user_def split: option.splits outcome.splits)

lemma read_routes_keep_the_database:
  "snd (GET_items offset limit s) = s" "snd (GET_item i s) = s"
  "snd (GET_users offset limit s) = s" "snd (GET_user i s) = s"
  by (auto simp: GET_items_def GET_item_def GET_users_def GET_user_def Let_def route_def
      read_items_def read_item_def read_users_def read_user_def
      split: option.splits outcome.splits)

lemma post_items_owner:
  assumes "\<forall>x\<in>set (item_table s). Item.owner_id x = None"
  shows "\<forall>x\<in>set (item_table (snd (POST_items rnd item s))). Item.owner_id x = None"
  using assms
  by (auto simp: POST_items_def route_def create_item_def Let_def set_insort_key
      split: option.splits)

lemma post_items_json_owner:
  assumes "fst (POST_items rnd item s) = Json c b"
  shows "ItemPublic.owner_id b = None"
  using assms
  by (auto simp: POST_items_def route_def create_item_def Let_def response_ItemPublic_def
      to_ItemPublic_def error_response_not_json split: option.splits if_splits)

lemma patch_item_owner:
  assumes "\<forall>x\<in>set (item_table s). Item.owner_id x = None"
  shows "\<forall>x\<in>set (item_table (snd (PATCH_item i item s))). Item.owner_id x = None"
proof (cases "session_get Item.id (item_table s) i")
  case (Raise e)
  with assms show ?thesis by (simp add: PATCH_item_def route_def update_item_def)
next
  case (Return found)
  show ?thesis
  proof (cases found)
    case None
    with Return assms show ?thesis by (simp add: missing_item_404)
  next
    case (Some r)
    with Return have "r \<in> set (item_table s)" by (intro session_get_mem) simp
    with assms have "Item.owner_id r = None" by blast
    with Some Return assms show ?thesis
      by (auto simp: PATCH_item_def route_def update_item_def Let_def
          split: option.splits prod.splits)
  qed
qed

lemma delete_item_owner:
  assumes "\<forall>x\<in>set (item_table s). Item.owner_id x = None"
  shows "\<forall>x\<in>set (item_table (snd (DELETE_item i s))). Item.owner_id x = None"
  using assms
  by (auto simp: DELETE_item_def route_def delete_item_def split: option.splits outcome.splits)

lemma serve_owner:
  assumes "\<forall>x\<in>set (item_table s). Item.owner_id x = None"
  shows "\<forall>x\<in>set (item_table (serve rnd h r s)). Item.owner_id x = None"
proof (cases r)
  case (CreateItem item)
  then show ?thesis using post_items_owner[OF assms] by simp
next
  case (UpdateItem i item)
  then show ?thesis using patch_item_owner[OF assms] by simp
next
  case (DeleteItem i)
  then show ?thesis using delete_item_owner[OF assms] by simp
qed (use assms in \<open>simp_all add: read_routes_keep_the_database post_users_item_table
      patch_user_item_table delete_user_item_table\<close>)

lemma serve_all_owner:
  "\<forall>x\<in>set (item_table s). Item.owner_id x = None \<Longrightarrow>
   \<forall>x\<in>set (item_table (serve_all rnd h rs s)). Item.owner_id x = None"
proof (induction rs arbitrary: s)
  case Nil
  then show ?case by simp
next
  case (Cons r rs)
  from Cons.prems have "\<forall>x\<in>set (item_table (serve rnd h r s)). Item.owner_id x = None"
    by (rule serve_owner)
  then show ?case using Cons.IH by simp
qed

text \<open>
  C10. No item route sets \<open>owner_id\<close>. Whatever requests the application serves, one
  after the other, from the empty database (or from any database whose items have no
  owner), every stored item has \<open>owner_id = None\<close>; a valid item body, when the store
  assigns a key, is answered 201 with \<open>owner_id = None\<close>, and no create is ever
  answered with a body that has an owner; and an update leaves the \<open>owner_id\<close> of the
  row as it was.
\<close>

theorem C10_items_never_get_an_owner:
  "((\<forall>x\<in>set (item_table s). Item.owner_id x = None) \<longrightarrow>
      (\<forall>x\<in>set (item_table (serve_all rnd h rs s)). Item.owner_id x = None))
   \<and> (\<forall>x\<in>set (item_table (serve_all rnd h rs empty_database)). Item.owner_id x = None)
   \<and> (ItemCreate_valid item \<and> next_rowid rnd (map Item.id (item_table s)) = Some n \<longrightarrow>
        (\<exists>b. fst (POST_items rnd item s) = Json 201 b \<and> ItemPublic.owner_id b = None))
   \<and> (fst (POST_items rnd item s) = Json c b' \<longrightarrow> ItemPublic.owner_id b' = None)
   \<and> (session_get Item.id (item_table s) k = Return (Some r) \<longrightarrow>
        (\<exists>r'. session_get Item.id (item_table (snd (PATCH_item k upd s))) k =
                Return (Some r') \<and>
              Item.owner_id r' = Item.owner_id r))"
proof (intro conjI impI)
  assume "\<forall>x\<in>set (item_table s). Item.owner_id x = None"
  then show "\<forall>x\<in>set (item_table (serve_all rnd h rs s)). Item.owner_id x = None"
    by (rule serve_all_owner)
next
  have "\<forall>x\<in>set (item_table empty_database). Item.owner_id x = None"
    by (simp add: empty_database_def)
  then show "\<forall>x\<in>set (item_table (serve_all rnd h rs empty_database)). Item.owner_id x = None"
    by (rule serve_all_owner)
next
  assume "ItemCreate_valid item \<and> next_rowid rnd (map Item.id (item_table s)) = Some n"
  then show "\<exists>b. fst (POST_items rnd item s) = Json 201 b \<and> ItemPublic.owner_id b = None"
    by (simp add: create_item_valid to_ItemPublic_def)
next
  assume "fst (POST_items rnd item s) = Json c b'"
  then show "ItemPublic.owner_id b' = None" by (rule post_items_json_owner)
next
  assume "session_get Item.id (item_table s) k = Return (Some r)"
  from update_item_frame[OF this, of upd]
  show "\<exists>r'. session_get Item.id (item_table (snd (PATCH_item k upd s))) k =
                Return (Some r') \<and>
              Item.owner_id r' = Item.owner_id r"
    by blast
qed

text \<open>
  The end-to-end scenario of the specification, then a user: the item is created and
  renamed, and still has no owner.
\<close>

theorem C10_items_never_get_an_owner_witness:
  "map Item.owner_id (item_table (serve_all [] tagging_hasher
      [CreateItem \<lparr>ItemCreate.name = ''Test Item'', ItemCreate.description = None,
                   ItemCreate.price = 10.99\<rparr>,
       UpdateItem 1 \<lparr>ItemUpdate.name = Set (Some ''New Name''), ItemUpdate.description = Unset,
                     ItemUpdate.price = Unset\<rparr>,
       CreateUser \<lparr>UserCreate.username = ''carol'', UserCreate.email = ''carol@example.com'',
                   UserCreate.is_active = True, UserCreate.password = ''pw''\<rparr>]
      empty_database)) = [None]
   \<and> map Item.name (item_table (serve_all [] tagging_hasher
      [CreateItem \<lparr>ItemCreate.name = ''Test Item'', ItemCreate.description = None,
                   ItemCreate.price = 10.99\<rparr>,
       UpdateItem 1 \<lparr>ItemUpdate.name = Set (Some ''New Name''), ItemUpdate.description = Unset,
                     ItemUpdate.price = Unset\<rparr>,
       CreateUser \<lparr>UserCreate.username = ''carol'', UserCreate.email = ''carol@example.com'',
                   UserCreate.is_active = True, UserCreate.password = ''pw''\<rparr>]
      empty_database)) = [''New Name'']
   \<and> ItemCreate_valid \<lparr>ItemCreate.name = ''Test Item'', ItemCreate.description = None,
                        ItemCreate.price = 10.99\<rparr>
   \<and> next_rowid [] (map Item.id (item_table empty_database)) = Some 1
   \<and> ItemPublic.owner_id (to_ItemPublic sample_item) = None
   \<and> session_get Item.id (item_table sample_database) 1 = Return (Some sample_item)"
proof -
  let ?item = "\<lparr>ItemCreate.name = ''Test Item'', ItemCreate.description = None,
                   ItemCreate.price = 10.99\<rparr>"
  let ?rs = "[CreateItem ?item,
       UpdateItem 1 \<lparr>ItemUpdate.name = Set (Some ''New Name''), ItemUpdate.description = Unset,
                     ItemUpdate.price = Unset\<rparr>,
       CreateUser \<lparr>UserCreate.username = ''carol'', UserCreate.email = ''carol@example.com'',
                   UserCreate.is_active = True, UserCreate.password = ''pw''\<rparr>]"
  have n: "map Item.name (item_table (serve_all [] tagging_hasher ?rs empty_database)) =
      [''New Name'']"
    by (simp add: POST_items_def PATCH_item_def POST_users_def route_def ItemCreate_valid_def
        create_item_def update_item_def create_user_def session_get_def in_int64_def
        next_rowid_def empty_database_def Let_def)
  then obtain x where x: "item_table (serve_all [] tagging_hasher ?rs empty_database) = [x]"
    by auto
  have v: "ItemCreate_valid ?item \<and>
      next_rowid [] (map Item.id (item_table empty_database)) = Some 1"
    by (simp add: ItemCreate_valid_def next_rowid_def empty_database_def)
  have j: "fst (POST_items []
      \<lparr>ItemCreate.name = ''Old Name'', ItemCreate.description = None, ItemCreate.price = 5\<rparr>
      empty_database) = Json 201 (to_ItemPublic sample_item)"
    by (simp add: POST_items_def route_def ItemCreate_valid_def create_item_def next_rowid_def
        empty_database_def sample_item_def response_ItemPublic_def Let_def)
  have g: "session_get Item.id (item_table sample_database) 1 = Return (Some sample_item)"
    by (simp add: session_get_def in_int64_def sample_database_def sample_item_def)
  have e: "\<forall>x\<in>set (item_table empty_database). Item.owner_id x = None"
    by (simp add: empty_database_def)
  note c = C10_items_never_get_an_owner
    [where s = empty_database and rnd = "[]" and h = tagging_hasher and rs = ?rs
       and item = "\<lparr>ItemCreate.name = ''Old Name'', ItemCreate.description = None,
                     ItemCreate.price = 5\<rparr>"
       and c = 201 and b' = "to_ItemPublic sample_item"]
  have "\<forall>x\<in>set (item_table (serve_all [] tagging_hasher ?rs empty_database)).
      Item.owner_id x = None"
    using c[THEN conjunct1, THEN mp, OF e] .
  with x have o: "map Item.owner_id
      (item_table (serve_all [] tagging_hasher ?rs empty_database)) = [None]"
    by simp
  have p: "ItemPublic.owner_id (to_ItemPublic sample_item) = None"
    using c[THEN conjunct2, THEN conjunct2, THEN conjunct2, THEN conjunct1, THEN mp, OF j] .
  from o n v p g show ?thesis by blast
qed

end
